theory Spec2Isabelle
  imports Main "HOL-Library.Sublist"
begin

section \<open>Errors and strings\<close>

text \<open>
  JavaScript exceptions as values. \<open>ThrownUndefined\<close> is what \<open>throw lastError\<close> raises
  when \<open>lastError\<close> was never assigned.
\<close>

datatype js_error =
    Error string
  | TypeError string
  | PentestError string string bool
  | ProcessError string string
  | ThrownUndefined

fun error_message :: "js_error \<Rightarrow> string" where
  "error_message (Error m) = m"
| "error_message (TypeError m) = m"
| "error_message (PentestError m ty r) = m"
| "error_message (ProcessError out m) = m"
| "error_message ThrownUndefined = []"

text \<open>\<open>error.stdout\<close>: only the process error of zx carries captured output.\<close>

fun error_stdout :: "js_error \<Rightarrow> string" where
  "error_stdout (ProcessError out m) = out"
| "error_stdout e = []"

definition newline :: string where
  "newline = [CHR 0x0A]"

fun join :: "string \<Rightarrow> string list \<Rightarrow> string" where
  "join sep [] = []"
| "join sep [x] = x"
| "join sep (x # y # ys) = x @ sep @ join sep (y # ys)"

text \<open>\<open>String.prototype.toLowerCase\<close> on the ASCII letters, \<open>includes\<close> and \<open>endsWith\<close>.\<close>

definition lower_char :: "char \<Rightarrow> char" where
  "lower_char c =
     (case map_of (zip ''ABCDEFGHIJKLMNOPQRSTUVWXYZ'' ''abcdefghijklmnopqrstuvwxyz'') c of
        None \<Rightarrow> c
      | Some l \<Rightarrow> l)"

definition toLowerCase :: "string \<Rightarrow> string" where
  "toLowerCase s = map lower_char s"

fun includes_str :: "string \<Rightarrow> string \<Rightarrow> bool" where
  "includes_str [] p = (p = [])"
| "includes_str (c # cs) p = (prefix p (c # cs) \<or> includes_str cs p)"

definition endsWith :: "string \<Rightarrow> string \<Rightarrow> bool" where
  "endsWith s p = prefix (rev p) (rev s)"

section \<open>Terminal scans (src/phases/pre-recon.js)\<close>

record scan_result =
  tool :: string
  output_str :: string
  status :: string
  duration :: nat

text \<open>
  What the outside world answers to one call of \<open>runTerminalScan\<close>:
  \<open>hostname\<close> is \<open>new URL(target).hostname\<close> (it throws on a malformed target),
  \<open>run_tool\<close> the external command of a tool (its stdout on exit code 0, the rejection of
  zx otherwise), \<open>schema_files\<close> the listing of \<open>outputs/schemas\<close> (\<open>None\<close> when the
  directory does not exist), \<open>run_schema\<close> the schemathesis run on one schema file,
  \<open>elapsed\<close> the value of \<open>timer.stop()\<close>, and \<open>summarise\<close> the text an error is
  reported with.
\<close>

record scan_env =
  hostname :: "js_error + string"
  run_tool :: "string \<Rightarrow> js_error + string"
  schema_files :: "(js_error + string list) option"
  run_schema :: "string \<Rightarrow> js_error + string"
  elapsed :: "string \<Rightarrow> nat"
  summarise :: "string \<Rightarrow> js_error \<Rightarrow> string"

text \<open>
  Modelled from the spec: \<open>handleToolError\<close> of src/error-handling.js is not among the
  sources. The spec (4.4): a thrown error or non-zero external-process exit converts to
  \<open>{status: failed, output: errorSummary}\<close>. The duration is 0 as in the skipped
  literals of the waves.
\<close>

definition handleToolError :: "scan_env \<Rightarrow> string \<Rightarrow> js_error \<Rightarrow> scan_result" where
  "handleToolError env t e =
     \<lparr>tool = t, output_str = summarise env t e, status = ''failed'', duration = 0\<rparr>"

definition succeeded :: "scan_env \<Rightarrow> string \<Rightarrow> string \<Rightarrow> scan_result" where
  "succeeded env t out = \<lparr>tool = t, output_str = out, status = ''success'', duration = elapsed env t\<rparr>"

definition skipped :: "string \<Rightarrow> string \<Rightarrow> nat \<Rightarrow> scan_result" where
  "skipped t why d = \<lparr>tool = t, output_str = why, status = ''skipped'', duration = d\<rparr>"

text \<open>The command alone: nmap-less tools that pass the target as it is.\<close>

definition run_command :: "scan_env \<Rightarrow> string \<Rightarrow> (string \<Rightarrow> string) \<Rightarrow> scan_result" where
  "run_command env t render =
     (case run_tool env t of
        Inl e \<Rightarrow> handleToolError env t e
      | Inr out \<Rightarrow> succeeded env t (render out))"

text \<open>The tools that first take the host name out of the target URL.\<close>

definition run_on_host :: "scan_env \<Rightarrow> string \<Rightarrow> scan_result" where
  "run_on_host env t =
     (case hostname env of
        Inl e \<Rightarrow> handleToolError env t e
      | Inr h \<Rightarrow> run_command env t (\<lambda>out. out))"

definition isApiSchema :: "string \<Rightarrow> bool" where
  "isApiSchema f = (endsWith f ''.json'' \<or> endsWith f ''.yml'' \<or> endsWith f ''.yaml'')"

text \<open>One schema file: a failing run is kept as text, it does not fail the scan.\<close>

definition schema_report :: "scan_env \<Rightarrow> string \<Rightarrow> string" where
  "schema_report env f =
     (case run_schema env f of
        Inr out \<Rightarrow> ''Schema: '' @ f @ newline @ out
      | Inl e \<Rightarrow> ''Schema: '' @ f @ newline @ ''Error: '' @
                 (if error_stdout e \<noteq> [] then error_stdout e else error_message e))"

definition run_schemathesis :: "scan_env \<Rightarrow> scan_result" where
  "run_schemathesis env =
     (case schema_files env of
        None \<Rightarrow> skipped ''schemathesis'' ''Schemas directory not found'' (elapsed env ''schemathesis'')
      | Some (Inl e) \<Rightarrow> handleToolError env ''schemathesis'' e
      | Some (Inr files) \<Rightarrow>
          (let apiSchemas = filter isApiSchema files in
           if length apiSchemas > 0
           then succeeded env ''schemathesis''
                  (join (newline @ newline) (map (schema_report env) apiSchemas))
           else skipped ''schemathesis'' ''No API schemas found'' (elapsed env ''schemathesis'')))"

text \<open>
  \<open>runTerminalScan(tool, target, sourceDir)\<close>: the switch over the tool name inside one
  try block whose catch returns \<open>handleToolError(tool, error)\<close>; it never throws.
\<close>

definition runTerminalScan :: "scan_env \<Rightarrow> string \<Rightarrow> scan_result" where
  "runTerminalScan env t =
     (if t = ''nmap'' then run_on_host env t
      else if t = ''subfinder'' then run_on_host env t
      else if t = ''whatweb'' then run_command env t (\<lambda>out. out)
      else if t = ''naabu'' then run_on_host env t
      else if t = ''schemathesis'' then run_schemathesis env
      else if t = ''httpx'' then run_command env t (\<lambda>out. out)
      else if t = ''nuclei'' then run_command env t (\<lambda>out. if out = [] then ''No findings'' else out)
      else if t = ''sqlmap'' then run_command env t (\<lambda>out. out)
      else handleToolError env t (Error (''Unknown tool: '' @ t)))"

section \<open>Promise.all\<close>

text \<open>
  A promise is given by how it settles: \<open>Inl\<close> rejected, \<open>Inr\<close> fulfilled. The promises of
  a wave settle in some order, a list of positions. \<open>Promise.all\<close> stores each fulfilment
  at the position of its promise and rejects at the first rejection; as long as a
  position is open it stays pending (\<open>None\<close>).
\<close>

fun settle_all :: "nat list \<Rightarrow> (js_error + 'a) list \<Rightarrow> 'a option list \<Rightarrow> js_error + 'a option list" where
  "settle_all [] ps acc = Inr acc"
| "settle_all (i # order) ps acc =
     (if i < length ps
      then (case ps ! i of
              Inl e \<Rightarrow> Inl e
            | Inr v \<Rightarrow> settle_all order ps (acc[i := Some v]))
      else settle_all order ps acc)"

definition promise_all :: "nat list \<Rightarrow> (js_error + 'a) list \<Rightarrow> (js_error + 'a list) option" where
  "promise_all order ps =
     (case settle_all order ps (replicate (length ps) None) of
        Inl e \<Rightarrow> Some (Inl e)
      | Inr acc \<Rightarrow> if list_all (\<lambda>x. x \<noteq> None) acc then Some (Inr (map the acc)) else None)"

text \<open>A completion order of \<open>n\<close> promises names each position once.\<close>

definition completion_order :: "nat \<Rightarrow> nat list \<Rightarrow> bool" where
  "completion_order n order = (distinct order \<and> set order = {0..<n})"

section \<open>The waves of the pre-recon phase\<close>

text \<open>
  The values found in a wave's result object: a scan result, the result of the code
  analysis agent, the text that stands for a tool in pipeline-testing mode, and
  JavaScript's \<open>null\<close> and \<open>undefined\<close>.
\<close>

datatype 'r wave_value = Undefined | Null | Text string | Scan scan_result | Agent 'r

text \<open>\<open>results[i]\<close>: reading past the end of an array gives \<open>undefined\<close>.\<close>

definition at_index :: "'r wave_value list \<Rightarrow> nat \<Rightarrow> 'r wave_value" where
  "at_index results i = (if i < length results then results ! i else Undefined)"

definition not_available :: "string \<Rightarrow> 'r wave_value" where
  "not_available t = Scan (skipped t ''Tool not available'' 0)"

text \<open>Wave 2: the scans that are started, in the order they are pushed.\<close>

definition wave2_scheduled :: "(string \<Rightarrow> bool) \<Rightarrow> string list" where
  "wave2_scheduled avail =
     (if avail ''schemathesis'' then [''schemathesis''] else []) @
     (if avail ''httpx'' then [''httpx''] else []) @
     (if avail ''nuclei'' then [''nuclei''] else []) @
     (if avail ''sqlmap'' then [''sqlmap''] else [])"

definition wave2_operations :: "scan_env \<Rightarrow> (string \<Rightarrow> bool) \<Rightarrow> (js_error + 'r wave_value) list" where
  "wave2_operations env avail = map (\<lambda>t. Inr (Scan (runTerminalScan env t))) (wave2_scheduled avail)"

text \<open>
  Mapping the results back: one counter \<open>resultIndex\<close> walks the array, advanced by each
  tool that is available.
\<close>

definition wave2_response :: "(string \<Rightarrow> bool) \<Rightarrow> 'r wave_value list \<Rightarrow> (string \<rightharpoonup> 'r wave_value)" where
  "wave2_response avail results =
     (let i0 = (0::nat);
          r1 = (if avail ''schemathesis'' then at_index results i0 else not_available ''schemathesis'');
          i1 = (if avail ''schemathesis'' then i0 + 1 else i0);
          r2 = (if avail ''httpx'' then at_index results i1 else not_available ''httpx'');
          i2 = (if avail ''httpx'' then i1 + 1 else i1);
          r3 = (if avail ''nuclei'' then at_index results i2 else not_available ''nuclei'');
          i3 = (if avail ''nuclei'' then i2 + 1 else i2);
          r4 = (if avail ''sqlmap'' then at_index results i3 else not_available ''sqlmap'')
      in [''schemathesis'' \<mapsto> r1, ''httpx'' \<mapsto> r2, ''nuclei'' \<mapsto> r3, ''sqlmap'' \<mapsto> r4])"

text \<open>
  \<open>runPreReconWave2(webUrl, sourceDir, toolAvailability, pipelineTestingMode)\<close>, with
  the completion order of its scans. \<open>None\<close>: the wave is still pending.
\<close>

definition runPreReconWave2 ::
  "scan_env \<Rightarrow> (string \<Rightarrow> bool) \<Rightarrow> bool \<Rightarrow> nat list \<Rightarrow> (js_error + (string \<rightharpoonup> 'r wave_value)) option" where
  "runPreReconWave2 env avail pipelineTestingMode order =
     (if pipelineTestingMode
      then Some (Inr [''schemathesis'' \<mapsto> Scan (skipped ''schemathesis'' ''Skipped (pipeline testing mode)'' 0)])
      else
        (let operations = wave2_operations env avail in
         if length operations = 0
         then Some (Inr [''schemathesis'' \<mapsto> not_available ''schemathesis''])
         else (case promise_all order operations of
                 None \<Rightarrow> None
               | Some (Inl e) \<Rightarrow> Some (Inl e)
               | Some (Inr results) \<Rightarrow> Some (Inr (wave2_response avail results)))))"

text \<open>
  Wave 1. \<open>code_analysis\<close> is how the promise of the code analysis agent
  (\<open>runClaudePromptWithRetry\<close> on the loaded prompt) settles, a failure to load the
  prompt counting as its rejection; it is scheduled unless the blackbox flag is set.
  Console output and the timing table are left out of the model throughout.
\<close>

definition wave1_operations ::
  "scan_env \<Rightarrow> (string \<Rightarrow> bool) \<Rightarrow> bool \<Rightarrow> (js_error + 'r) \<Rightarrow> (js_error + 'r wave_value) list" where
  "wave1_operations env avail isBlackbox code_analysis =
     [Inr (Scan (runTerminalScan env ''nmap'')),
      Inr (Scan (runTerminalScan env ''subfinder'')),
      Inr (Scan (runTerminalScan env ''whatweb'')),
      (if avail ''naabu'' then Inr (Scan (runTerminalScan env ''naabu''))
       else Inr (not_available ''naabu''))] @
     (if isBlackbox then [] else [map_sum (\<lambda>e. e) Agent code_analysis])"

definition blackbox_skipped :: "'r wave_value" where
  "blackbox_skipped = Scan (skipped ''code-analysis'' ''Skipped (blackbox mode)'' 0)"

definition runPreReconWave1 ::
  "scan_env \<Rightarrow> (string \<Rightarrow> bool) \<Rightarrow> bool \<Rightarrow> bool \<Rightarrow> (js_error + 'r) \<Rightarrow> nat list
     \<Rightarrow> (js_error + (string \<rightharpoonup> 'r wave_value)) option" where
  "runPreReconWave1 env avail pipelineTestingMode isBlackbox code_analysis order =
     (if pipelineTestingMode
      then
        (let operations = (if isBlackbox then [] else [map_sum (\<lambda>e. e) Agent code_analysis]) in
         case (if length operations \<noteq> 0 then promise_all order operations else Some (Inr [Null])) of
           None \<Rightarrow> None
         | Some (Inl e) \<Rightarrow> Some (Inl e)
         | Some (Inr results) \<Rightarrow>
             Some (Inr [''nmap'' \<mapsto> Text ''Skipped (pipeline testing mode)'',
                        ''subfinder'' \<mapsto> Text ''Skipped (pipeline testing mode)'',
                        ''whatweb'' \<mapsto> Text ''Skipped (pipeline testing mode)'',
                        ''naabu'' \<mapsto> Text ''Skipped (pipeline testing mode)'',
                        ''codeAnalysis'' \<mapsto> (if isBlackbox then blackbox_skipped else at_index results 0)]))
      else
        (case promise_all order (wave1_operations env avail isBlackbox code_analysis) of
           None \<Rightarrow> None
         | Some (Inl e) \<Rightarrow> Some (Inl e)
         | Some (Inr results) \<Rightarrow>
             Some (Inr [''nmap'' \<mapsto> at_index results 0,
                        ''subfinder'' \<mapsto> at_index results 1,
                        ''whatweb'' \<mapsto> at_index results 2,
                        ''naabu'' \<mapsto> at_index results 3,
                        ''codeAnalysis'' \<mapsto> (if isBlackbox then blackbox_skipped else at_index results 4)])))"

text \<open>What a settled wave binds a name to; nothing while it is pending or rejected.\<close>

definition binding :: "(js_error + (string \<rightharpoonup> 'v)) option \<Rightarrow> string \<Rightarrow> 'v option" where
  "binding wave k = (case wave of Some (Inr response) \<Rightarrow> response k | _ \<Rightarrow> None)"

text \<open>
  How the one external command of a tool ends, for the tools that run one command:
  the URL is parsed first by nmap, subfinder and naabu.
\<close>

definition command_outcome :: "scan_env \<Rightarrow> string \<Rightarrow> js_error + string" where
  "command_outcome env t =
     (if t = ''nmap'' \<or> t = ''subfinder'' \<or> t = ''naabu''
      then (case hostname env of Inl e \<Rightarrow> Inl e | Inr h \<Rightarrow> run_tool env t)
      else run_tool env t)"

section \<open>One agent attempt (src/ai/claude-executor.js)\<close>

text \<open>
  The messages the query iterator yields. The content of an assistant message is a
  string or an array of blocks, each block given by the text it renders to. A result
  message carries \<open>result\<close> and \<open>total_cost_usd\<close>, either of which may be absent.
  Costs are values of any type with an addition and a zero, of which no law is taken
  for granted: JavaScript adds doubles, whose addition is not associative.
\<close>

datatype msg_content = Plain string | Blocks "string list"

fun content_text :: "msg_content \<Rightarrow> string" where
  "content_text (Plain s) = s"
| "content_text (Blocks bs) = join newline bs"

datatype 'c message =
    Assistant msg_content
  | SystemInit
  | UserEcho
  | ToolUse
  | ToolResult
  | Result "string option" "'c option"
  | OtherMessage

text \<open>
  One attempt as the outside world plays it: an exception that leaves \<open>runClaudePrompt\<close>
  past its own handler (\<open>escapes\<close>), the messages of the stream, the error the iterator
  throws once they are exhausted (\<open>stream_error\<close>), and the workspace the validator
  will inspect (for the text-only provider, after the retry loop has written the
  pre-recon deliverable it found missing).
\<close>

record ('c, 'w) attempt_world =
  escapes :: "js_error option"
  stream :: "'c message list"
  stream_error :: "js_error option"
  workspace :: 'w

record 'c cost_results =
  total :: 'c
  agents :: "string \<rightharpoonup> 'c"

record 'c run_state =
  turnCount :: nat
  messages :: "string list"
  apiErrorDetected :: bool
  result_text :: "string option"
  totalCost :: 'c
  partialCost :: 'c

text \<open>
  What \<open>runClaudePrompt\<close> returns: the object of the normal path (result, turns, cost,
  partialCost, apiErrorDetected) or the object built in its catch block (error message,
  cost, retryable).
\<close>

datatype 'c attempt_result =
    Completed "string option" nat 'c 'c bool
  | Failure string 'c bool

fun success :: "'c attempt_result \<Rightarrow> bool" where
  "success (Completed r t c p a) = True"
| "success (Failure m c r) = False"

fun cost :: "'c attempt_result \<Rightarrow> 'c" where
  "cost (Completed r t c p a) = c"
| "cost (Failure m c r) = c"

fun result_of :: "'c attempt_result \<Rightarrow> string option" where
  "result_of (Completed r t c p a) = r"
| "result_of (Failure m c r) = None"

fun api_error_of :: "'c attempt_result \<Rightarrow> bool" where
  "api_error_of (Completed r t c p a) = a"
| "api_error_of (Failure m c r) = False"

text \<open>\<open>result.partialCost || result.cost || 0\<close>.\<close>

fun partial_or_cost :: "'c::{plus,zero} attempt_result \<Rightarrow> 'c" where
  "partial_or_cost (Completed r t c p a) = (if p = 0 then c else p)"
| "partial_or_cost (Failure m c r) = c"

definition truthy :: "string option \<Rightarrow> bool" where
  "truthy r = (case r of None \<Rightarrow> False | Some s \<Rightarrow> s \<noteq> [])"

text \<open>\<open>description.toLowerCase().replace(/\s+/g, '-')\<close>, on ASCII white space.\<close>

definition is_space :: "char \<Rightarrow> bool" where
  "is_space c = (let n = (of_char c :: nat) in n = 32 \<or> (9 \<le> n \<and> n \<le> 13))"

fun dash_spaces :: "bool \<Rightarrow> string \<Rightarrow> string" where
  "dash_spaces in_run [] = []"
| "dash_spaces in_run (c # cs) =
     (if is_space c
      then (if in_run then dash_spaces True cs else CHR ''-'' # dash_spaces True cs)
      else c # dash_spaces False cs)"

definition agentKey :: "string \<Rightarrow> string" where
  "agentKey description = dash_spaces False (toLowerCase description)"

text \<open>
  The \<open>for await\<close> loop of \<open>runClaudePrompt\<close>. It returns the error thrown inside the
  loop, if any, with the local variables and the global cost table as they stand.
\<close>

fun consume ::
  "string \<Rightarrow> 'c::{plus,zero} message list \<Rightarrow> js_error option \<Rightarrow> 'c run_state \<Rightarrow> 'c cost_results
     \<Rightarrow> js_error option \<times> 'c run_state \<times> 'c cost_results" where
  "consume key [] fin st costs = (fin, st, costs)"
| "consume key (Assistant c # ms) fin st costs =
     (let content = content_text c;
          st1 = st\<lparr>turnCount := turnCount st + 1, messages := messages st @ [content]\<rparr>;
          lowerContent = toLowerCase content
      in if content \<noteq> [] \<and> includes_str lowerContent ''session limit reached''
         then (Some (PentestError ''Session limit reached'' ''billing'' False), st1, costs)
         else if content \<noteq> [] \<and>
                 (includes_str lowerContent ''api error'' \<or> includes_str lowerContent ''terminated'')
         then consume key ms fin (st1\<lparr>apiErrorDetected := True\<rparr>) costs
         else consume key ms fin st1 costs)"
| "consume key (Result r c # ms) fin st costs =
     (let cst = (case c of None \<Rightarrow> 0 | Some v \<Rightarrow> v)
      in (None,
          st\<lparr>result_text := r, totalCost := cst, partialCost := cst\<rparr>,
          costs\<lparr>agents := (agents costs)(key \<mapsto> cst), total := total costs + cst\<rparr>))"
| "consume key (m # ms) fin st costs = consume key ms fin st costs"

text \<open>
  The catch blocks read \<open>error.message\<close>, \<open>error.constructor\<close> or \<open>error.duration\<close>; when
  the value caught is \<open>undefined\<close> the read throws this TypeError (its text shortened),
  which leaves the function the catch block belongs to.
\<close>

definition undefined_read :: js_error where
  "undefined_read = TypeError ''Cannot read properties of undefined''"

definition initial_run_state :: "'c::{plus,zero} run_state" where
  "initial_run_state =
     \<lparr>turnCount = 0, messages = [], apiErrorDetected = False, result_text = None,
      totalCost = 0, partialCost = 0\<rparr>"

definition runClaudePrompt ::
  "(js_error \<Rightarrow> bool) \<Rightarrow> string \<Rightarrow> ('c::{plus,zero}, 'w) attempt_world \<Rightarrow> 'c cost_results
     \<Rightarrow> (js_error + 'c attempt_result) \<times> 'c cost_results" where
  "runClaudePrompt isRetryableError description w costs =
     (case escapes w of
        Some e \<Rightarrow> (Inl e, costs)
      | None \<Rightarrow>
          (case consume (agentKey description) (stream w) (stream_error w) initial_run_state costs of
             (None, st, costs') \<Rightarrow>
               (Inr (Completed
                       (if \<not> truthy (result_text st) \<and> length (messages st) > 0
                        then Some (join newline (messages st)) else result_text st)
                       (turnCount st) (totalCost st) (partialCost st) (apiErrorDetected st)),
                costs')
           | (Some e, st, costs') \<Rightarrow>
               (if e = ThrownUndefined
                then (Inl undefined_read, costs')
                else (Inr (Failure (error_message e) (partialCost st) (isRetryableError e)),
                      costs'))))"

section \<open>Validation and retry (src/ai/claude-executor.js)\<close>

text \<open>
  The process-wide switches the executor reads: \<open>global.SHANNON_RELAX_VALIDATION\<close>,
  whether \<open>SHANNON_LLM_PROVIDER\<close> is \<open>openai\<close>, and whether an audit session exists
  (\<open>sessionMetadata && agentName\<close>).
\<close>

record config =
  relaxValidation :: bool
  textOnly :: bool
  audited :: bool

text \<open>
  The imports that are not among the sources are parameters: \<open>isRetryableError\<close> and
  \<open>getRetryDelay\<close> of src/error-handling.js and the table \<open>AGENT_VALIDATORS\<close> of
  src/constants.js, whose validators inspect the workspace and may throw.
\<close>

record 'w collaborators =
  isRetryableError :: "js_error \<Rightarrow> bool"
  getRetryDelay :: "js_error \<Rightarrow> nat \<Rightarrow> nat"
  AGENT_VALIDATORS :: "string \<rightharpoonup> ('w \<Rightarrow> js_error + bool)"

definition validateAgentOutput ::
  "config \<Rightarrow> (string \<rightharpoonup> ('w \<Rightarrow> js_error + bool)) \<Rightarrow> 'c attempt_result \<Rightarrow> string \<Rightarrow> 'w \<Rightarrow> bool" where
  "validateAgentOutput cfg validators r agentName sourceDir =
     (if relaxValidation cfg \<and> textOnly cfg \<and> (agentName = ''pre-recon'' \<or> agentName = ''recon'')
      then True
      else if \<not> success r \<or> \<not> truthy (result_of r) then False
      else (case validators agentName of
              None \<Rightarrow> True
            | Some validator \<Rightarrow> (case validator sourceDir of Inl e \<Rightarrow> False | Inr ok \<Rightarrow> ok)))"

text \<open>
  The calls the retry loop makes to the git manager, the audit session and the executor,
  in the order it makes them. The git manager and the audit session are not among the
  sources; their calls are recorded and taken to return.
\<close>

datatype 'c event =
    Checkpoint nat
  | StartAgent nat
  | Executed nat "js_error + 'c attempt_result"
  | EndAgent nat bool 'c
  | CommitSuccess
  | Rollback string
  | Delay nat

record 'c orch_state =
  trace :: "'c event list"
  costResults :: "'c cost_results"

definition emit :: "'c event \<Rightarrow> 'c orch_state \<Rightarrow> 'c orch_state" where
  "emit ev st = st\<lparr>trace := trace st @ [ev]\<rparr>"

definition emit_if :: "bool \<Rightarrow> 'c event \<Rightarrow> 'c orch_state \<Rightarrow> 'c orch_state" where
  "emit_if b ev st = (if b then emit ev st else st)"

definition maxRetries :: nat where
  "maxRetries = 3"

text \<open>How one pass through the loop body ends: the function returns or throws
  (\<open>Leave\<close>), or the loop goes on with the given \<open>lastError\<close>.\<close>

datatype 'c step = Leave "js_error + 'c attempt_result" | Continue "js_error option"

text \<open>
  The catch block of the loop body. A caught \<open>undefined\<close> makes it throw at its first
  read of a property of the error: in the argument of \<open>endAgent\<close> when there is an audit
  session, else in the log line of its branch, which the non-retryable branch prints
  before its rollback and the other two after theirs.
\<close>

definition on_catch ::
  "'w collaborators \<Rightarrow> config \<Rightarrow> nat \<Rightarrow> js_error \<Rightarrow> 'c::{plus,zero} orch_state \<Rightarrow> 'c step \<times> 'c orch_state" where
  "on_catch imp cfg attempt err st =
     (if err = ThrownUndefined \<and> audited cfg then (Leave (Inl undefined_read), st)
      else
        (let st1 = emit_if (audited cfg) (EndAgent attempt False 0) st in
         if \<not> isRetryableError imp err
         then (if err = ThrownUndefined then (Leave (Inl undefined_read), st1)
               else (Leave (Inl err), emit (Rollback ''non-retryable error cleanup'') st1))
         else if attempt < maxRetries
         then (if err = ThrownUndefined
               then (Leave (Inl undefined_read), emit (Rollback ''retryable error cleanup'') st1)
               else (Continue (Some err),
                     emit (Delay (getRetryDelay imp err attempt))
                       (emit (Rollback ''retryable error cleanup'') st1)))
         else (if err = ThrownUndefined
               then (Leave (Inl undefined_read), emit (Rollback ''final failure cleanup'') st1)
               else (Continue (Some err), emit (Rollback ''final failure cleanup'') st1))))"

definition validation_exhausted :: "string \<Rightarrow> js_error" where
  "validation_exhausted description =
     PentestError (''Agent '' @ description @
                   '' failed output validation after 3 attempts. Required deliverable files were not created.'')
                  ''validation'' False"

text \<open>The loop body for one value of \<open>attempt\<close>.\<close>

definition run_attempt ::
  "'w collaborators \<Rightarrow> config \<Rightarrow> string \<Rightarrow> string \<Rightarrow> ('c::{plus,zero}, 'w) attempt_world \<Rightarrow> nat
     \<Rightarrow> js_error option \<Rightarrow> 'c orch_state \<Rightarrow> 'c step \<times> 'c orch_state" where
  "run_attempt imp cfg description agentName w attempt lastError st =
     (let st1 = emit_if (audited cfg) (StartAgent attempt) (emit (Checkpoint attempt) st);
          (outcome, costs') = runClaudePrompt (isRetryableError imp) description w (costResults st1);
          st2 = emit (Executed attempt outcome) (st1\<lparr>costResults := costs'\<rparr>)
      in case outcome of
           Inl e \<Rightarrow> on_catch imp cfg attempt e st2
         | Inr r \<Rightarrow>
             if success r
             then
               if validateAgentOutput cfg (AGENT_VALIDATORS imp) r agentName (workspace w)
               then (Leave (Inr r),
                     emit CommitSuccess (emit_if (audited cfg) (EndAgent attempt True (cost r)) st2))
               else
                 (let st3 = emit_if (audited cfg) (EndAgent attempt False (partial_or_cost r)) st2 in
                  if attempt < maxRetries
                  then (Continue (Some (if api_error_of r
                                        then Error ''API Error: terminated with validation failure''
                                        else Error ''Output validation failed'')),
                        emit (Rollback ''validation failure'') st3)
                  else on_catch imp cfg attempt (validation_exhausted description) st3)
             else (Continue lastError, st2))"

function attempt_loop ::
  "'w collaborators \<Rightarrow> config \<Rightarrow> string \<Rightarrow> string \<Rightarrow> (nat \<Rightarrow> ('c::{plus,zero}, 'w) attempt_world) \<Rightarrow> nat
     \<Rightarrow> js_error option \<Rightarrow> 'c orch_state \<Rightarrow> (js_error + 'c attempt_result) \<times> 'c orch_state" where
  "attempt_loop imp cfg description agentName world attempt lastError st =
     (if attempt \<le> maxRetries
      then (case run_attempt imp cfg description agentName (world attempt) attempt lastError st of
              (Leave r, st') \<Rightarrow> (r, st')
            | (Continue le, st') \<Rightarrow> attempt_loop imp cfg description agentName world (attempt + 1) le st')
      else (Inl (case lastError of None \<Rightarrow> ThrownUndefined | Some e \<Rightarrow> e), st))"
  by pat_completeness auto
termination
  by (relation "measure (\<lambda>(imp, cfg, description, agentName, world, attempt, lastError, st).
                   Suc maxRetries - attempt)") auto

declare attempt_loop.simps [simp del]

text \<open>
  \<open>runClaudePromptWithRetry\<close>: attempts 1 to \<open>maxRetries\<close>, \<open>world n\<close> being what happens
  in attempt \<open>n\<close>; it starts from an empty record of calls and the cost table as it is.
  The context string carried to the next attempt only changes the prompt, whose answer
  \<open>world\<close> already fixes, and is not modelled.
\<close>

definition runClaudePromptWithRetry ::
  "'w collaborators \<Rightarrow> config \<Rightarrow> string \<Rightarrow> string \<Rightarrow> (nat \<Rightarrow> ('c::{plus,zero}, 'w) attempt_world)
     \<Rightarrow> 'c cost_results \<Rightarrow> (js_error + 'c attempt_result) \<times> 'c orch_state" where
  "runClaudePromptWithRetry imp cfg description agentName world costs =
     attempt_loop imp cfg description agentName world 1 None \<lparr>trace = [], costResults = costs\<rparr>"

text \<open>The checkpoint, execute and rollback calls of a record, in order.\<close>

datatype cycle_step = Snapshot | Run | Restore

fun cycle_steps :: "'c event list \<Rightarrow> cycle_step list" where
  "cycle_steps [] = []"
| "cycle_steps (Checkpoint n # evs) = Snapshot # cycle_steps evs"
| "cycle_steps (Executed n r # evs) = Run # cycle_steps evs"
| "cycle_steps (Rollback why # evs) = Restore # cycle_steps evs"
| "cycle_steps (ev # evs) = cycle_steps evs"





section \<open>Session progress (shannon.mjs)\<close>

record session =
  completedAgents :: "string list"
  failedAgents :: "string list"
  checkpoints :: "string \<rightharpoonup> string"
  session_status :: string

text \<open>\<open>[...new Set(xs)]\<close>: the elements in the order they first occur.\<close>

fun set_insertions :: "'a list \<Rightarrow> 'a list \<Rightarrow> 'a list" where
  "set_insertions seen [] = seen"
| "set_insertions seen (x # xs) = set_insertions (if x \<in> set seen then seen else seen @ [x]) xs"

definition unique :: "'a list \<Rightarrow> 'a list" where
  "unique xs = set_insertions [] xs"

text \<open>
  The helper \<open>updateSessionProgress(agentName, commitHash = null)\<close> of \<open>main\<close>. \<open>stored\<close>
  tells whether \<open>updateSession\<close> of the session manager returns; when it throws, the
  catch block only logs and the local session object is not touched. An empty hash is
  falsy and records nothing.
\<close>

definition updateSessionProgress :: "bool \<Rightarrow> session \<Rightarrow> string \<Rightarrow> string option \<Rightarrow> session" where
  "updateSessionProgress stored s agentName commitHash =
     (if stored
      then s\<lparr>completedAgents := unique (completedAgents s @ [agentName]),
             failedAgents := filter (\<lambda>name. name \<noteq> agentName) (failedAgents s),
             session_status := ''in-progress'',
             checkpoints := (if truthy commitHash
                             then (checkpoints s)(agentName \<mapsto> the commitHash)
                             else checkpoints s)\<rparr>
      else s)"

text \<open>
  Phase 5 of \<open>main\<close> from the return of the report agent on: \<open>outcome\<close> is how
  \<open>runClaudePromptWithRetry\<close> settled and \<open>hash\<close> what \<open>getGitCommitHash\<close> gives (it
  may throw or give \<open>null\<close>, on which \<open>substring\<close> throws after the first update). The
  first component is the error \<open>main\<close> rejects with.
\<close>

definition reporting_phase ::
  "bool \<Rightarrow> bool \<Rightarrow> session \<Rightarrow> (js_error + 'r) \<Rightarrow> (js_error + string option) \<Rightarrow> js_error option \<times> session" where
  "reporting_phase stored1 stored2 s outcome hash =
     (case outcome of
        Inl e \<Rightarrow> (Some e, s)
      | Inr r \<Rightarrow>
          (None,
           case hash of
             Inl e \<Rightarrow> updateSessionProgress stored2 s ''report'' None
           | Inr None \<Rightarrow>
               updateSessionProgress stored2 (updateSessionProgress stored1 s ''report'' None) ''report'' None
           | Inr (Some h) \<Rightarrow> updateSessionProgress stored1 s ''report'' (Some h)))"

text \<open>Phase 2 of \<open>main\<close> from the return of the recon agent on.\<close>

definition recon_phase :: "bool \<Rightarrow> session \<Rightarrow> (js_error + 'r) \<Rightarrow> js_error option \<times> session" where
  "recon_phase stored s outcome =
     (case outcome of
        Inl e \<Rightarrow> (Some e, s)
      | Inr r \<Rightarrow> (None, updateSessionProgress stored s ''recon'' None))"

text \<open>The session invariant of the data model.\<close>

definition session_inv :: "session \<Rightarrow> bool" where
  "session_inv s =
     (set (completedAgents s) \<inter> set (failedAgents s) = {} \<and>
      dom (checkpoints s) \<subseteq> set (completedAgents s))"

record agent =
  name :: string
  displayName :: string

text \<open>
  Modelled from the spec: \<open>getNextAgent\<close> and the catalog \<open>AGENTS\<close> of
  src/session-manager.js are not among the sources. The spec (4.6): it scans the fixed
  ordered catalog of agents, returns the first whose name is not in \<open>completedAgents\<close>,
  and returns null when all are completed. The catalog is a parameter.
\<close>

fun getNextAgent :: "agent list \<Rightarrow> session \<Rightarrow> agent option" where
  "getNextAgent [] s = None"
| "getNextAgent (a # catalog) s =
     (if name a \<in> set (completedAgents s) then getNextAgent catalog s else Some a)"

section \<open>Process signals (shannon.mjs)\<close>

text \<open>
  The process as the signal handlers see it: the console, the exit code once
  \<open>process.exit\<close> was called, the workspace as it is, the workspace of the last
  checkpoint, and whether an attempt is running.
\<close>

record 'w process =
  console :: "string list"
  exit_code :: "int option"
  workspace_now :: 'w
  last_checkpoint :: 'w
  attempt_in_flight :: bool

text \<open>The handler registered for SIGINT: one line on the console, then \<open>process.exit(0)\<close>.\<close>

definition on_SIGINT :: "'w process \<Rightarrow> 'w process" where
  "on_SIGINT p =
     p\<lparr>console := console p @ [''Received SIGINT, cleaning up...''], exit_code := Some 0\<rparr>"

definition on_SIGTERM :: "'w process \<Rightarrow> 'w process" where
  "on_SIGTERM p =
     p\<lparr>console := console p @ [''Received SIGTERM, cleaning up...''], exit_code := Some 0\<rparr>"

section \<open>Concrete inputs\<close>

text \<open>A target on which every command exits with code 0; no schema directory.\<close>

definition calm_env :: scan_env where
  "calm_env =
     \<lparr>hostname = Inr ''example.com'',
      run_tool = (\<lambda>t. Inr (''report of '' @ t)),
      schema_files = None,
      run_schema = (\<lambda>f. Inr []),
      elapsed = (\<lambda>t. 5),
      summarise = (\<lambda>t e. error_message e)\<rparr>"

text \<open>The same target with httpx exiting non-zero.\<close>

definition httpx_down_env :: scan_env where
  "httpx_down_env =
     calm_env\<lparr>run_tool := (\<lambda>t. if t = ''httpx'' then Inl (ProcessError [] ''exit code: 1'')
                                else Inr (''report of '' @ t))\<rparr>"

text \<open>One API schema on which schemathesis exits non-zero.\<close>

definition schema_down_env :: scan_env where
  "schema_down_env =
     calm_env\<lparr>schema_files := Some (Inr [''api.json'']),
               run_schema := (\<lambda>f. Inl (ProcessError [] ''exit code: 1''))\<rparr>"

definition every_tool :: "string \<Rightarrow> bool" where
  "every_tool t = True"

definition httpx_and_sqlmap :: "string \<Rightarrow> bool" where
  "httpx_and_sqlmap t = (t = ''httpx'' \<or> t = ''sqlmap'')"

definition no_naabu_no_nuclei :: "string \<Rightarrow> bool" where
  "no_naabu_no_nuclei t = (t \<noteq> ''naabu'' \<and> t \<noteq> ''nuclei'')"

text \<open>Collaborators that class no error as retryable and know one validator, which
  looks for the deliverable among the files of the workspace.\<close>

definition strict_collaborators :: "string list collaborators" where
  "strict_collaborators =
     \<lparr>isRetryableError = (\<lambda>e. False),
      getRetryDelay = (\<lambda>e n. 1000 * n),
      AGENT_VALIDATORS = [''recon'' \<mapsto> (\<lambda>files. Inr (''deliverables/recon_deliverable.md'' \<in> set files))]\<rparr>"

definition plain_config :: config where
  "plain_config = \<lparr>relaxValidation = False, textOnly = False, audited = True\<rparr>"

definition no_costs :: "nat cost_results" where
  "no_costs = \<lparr>total = 0, agents = Map.empty\<rparr>"

text \<open>An attempt whose stream carries the quota signal in its second message.\<close>

definition session_limit_world :: "(nat, string list) attempt_world" where
  "session_limit_world =
     \<lparr>escapes = None,
      stream = [SystemInit, Assistant (Plain ''Claude usage: Session limit reached, resets 5pm'')],
      stream_error = None,
      workspace = []\<rparr>"

text \<open>An attempt whose iterator throws before any message.\<close>

definition invalid_key_world :: "(nat, string list) attempt_world" where
  "invalid_key_world =
     \<lparr>escapes = None, stream = [], stream_error = Some (Error ''Invalid API key''), workspace = []\<rparr>"

text \<open>An attempt that completes at a cost of 7 and leaves no deliverable.\<close>

definition empty_handed_world :: "(nat, string list) attempt_world" where
  "empty_handed_world =
     \<lparr>escapes = None,
      stream = [Assistant (Plain ''Looking around''), Result (Some ''done'') (Some 7)],
      stream_error = None,
      workspace = [''notes.txt'']\<rparr>"



definition fresh_session :: session where
  "fresh_session =
     \<lparr>completedAgents = [''pre-recon''], failedAgents = [''recon''],
      checkpoints = Map.empty, session_status = ''in-progress''\<rparr>"

definition short_catalog :: "agent list" where
  "short_catalog =
     [\<lparr>name = ''pre-recon'', displayName = ''Pre-recon agent''\<rparr>,
      \<lparr>name = ''recon'', displayName = ''Recon agent''\<rparr>,
      \<lparr>name = ''report'', displayName = ''Report agent''\<rparr>]"

text \<open>A process interrupted while an attempt has written a file since the checkpoint.\<close>

definition interrupted_process :: "string list process" where
  "interrupted_process =
     \<lparr>console = [], exit_code = None, workspace_now = [''deliverables/partial.md''],
      last_checkpoint = [], attempt_in_flight = True\<rparr>"

section \<open>Promise.all keeps positions\<close>

lemma settle_all_fulfilled:
  "length acc = length vs \<Longrightarrow>
   settle_all order (map Inr vs) acc =
     Inr (map (\<lambda>i. if i \<in> set order then Some (vs ! i) else acc ! i) [0..<length vs])"
proof (induction order arbitrary: acc)
  case Nil
  then show ?case using map_nth [of acc] by simp
next
  case (Cons i order)
  show ?case
  proof (cases "i < length vs")
    case True
    have "settle_all (i # order) (map Inr vs) acc = settle_all order (map Inr vs) (acc[i := Some (vs ! i)])"
      using True by simp
    also have "\<dots> = Inr (map (\<lambda>j. if j \<in> set order then Some (vs ! j) else (acc[i := Some (vs ! i)]) ! j) [0..<length vs])"
      using Cons.prems by (intro Cons.IH) simp
    also have "\<dots> = Inr (map (\<lambda>j. if j \<in> set (i # order) then Some (vs ! j) else acc ! j) [0..<length vs])"
      using Cons.prems by (auto simp: nth_list_update)
    finally show ?thesis .
  next
    case False
    then show ?thesis using Cons by (auto simp: nth_list_update)
  qed
qed

lemma promise_all_fulfilled:
  assumes "completion_order (length vs) order"
  shows "promise_all order (map Inr vs) = Some (Inr vs)"
proof -
  have covered: "set order = {0..<length vs}"
    using assms by (simp add: completion_order_def)
  have "settle_all order (map Inr vs) (replicate (length vs) None)
          = Inr (map (\<lambda>i. if i \<in> set order then Some (vs ! i) else replicate (length vs) None ! i) [0..<length vs])"
    by (rule settle_all_fulfilled) simp
  also have "\<dots> = Inr (map Some vs)"
    unfolding covered by (auto intro!: nth_equalityI)
  finally have "settle_all order (map Inr vs) (replicate (length vs) None) = Inr (map Some vs)" .
  then show ?thesis
    by (simp add: promise_all_def list_all_iff comp_def)
qed

section \<open>Wave 2\<close>

lemma wave2_results_in_push_order:
  assumes "completion_order (length (wave2_scheduled avail)) order"
  shows "promise_all order (wave2_operations env avail :: (js_error + 'r wave_value) list)
           = Some (Inr (map (\<lambda>t. Scan (runTerminalScan env t)) (wave2_scheduled avail)))"
proof -
  have "(wave2_operations env avail :: (js_error + 'r wave_value) list)
          = map Inr (map (\<lambda>t. Scan (runTerminalScan env t)) (wave2_scheduled avail))"
    by (simp add: wave2_operations_def)
  then show ?thesis
    using assms promise_all_fulfilled [of "map (\<lambda>t. Scan (runTerminalScan env t)) (wave2_scheduled avail)" order]
    by simp
qed

lemma wave2_response_named:
  "wave2_response avail (map f (wave2_scheduled avail)) =
     [''schemathesis'' \<mapsto> (if avail ''schemathesis'' then f ''schemathesis'' else not_available ''schemathesis''),
      ''httpx'' \<mapsto> (if avail ''httpx'' then f ''httpx'' else not_available ''httpx''),
      ''nuclei'' \<mapsto> (if avail ''nuclei'' then f ''nuclei'' else not_available ''nuclei''),
      ''sqlmap'' \<mapsto> (if avail ''sqlmap'' then f ''sqlmap'' else not_available ''sqlmap'')]"
  by (simp add: wave2_response_def wave2_scheduled_def at_index_def Let_def nth_append)

lemma wave2_scheduled_empty:
  "(length (wave2_scheduled avail) = 0) =
     (\<not> avail ''schemathesis'' \<and> \<not> avail ''httpx'' \<and> \<not> avail ''nuclei'' \<and> \<not> avail ''sqlmap'')"
  by (simp add: wave2_scheduled_def)

lemma wave2_resolves:
  assumes "\<not> pipelineTestingMode"
    and "avail ''schemathesis'' \<or> avail ''httpx'' \<or> avail ''nuclei'' \<or> avail ''sqlmap''"
    and "completion_order (length (wave2_scheduled avail)) order"
  shows "(runPreReconWave2 env avail pipelineTestingMode order
            :: (js_error + (string \<rightharpoonup> 'r wave_value)) option) =
     Some (Inr
       [''schemathesis'' \<mapsto> (if avail ''schemathesis'' then Scan (runTerminalScan env ''schemathesis'') else not_available ''schemathesis''),
        ''httpx'' \<mapsto> (if avail ''httpx'' then Scan (runTerminalScan env ''httpx'') else not_available ''httpx''),
        ''nuclei'' \<mapsto> (if avail ''nuclei'' then Scan (runTerminalScan env ''nuclei'') else not_available ''nuclei''),
        ''sqlmap'' \<mapsto> (if avail ''sqlmap'' then Scan (runTerminalScan env ''sqlmap'') else not_available ''sqlmap'')])"
proof -
  have nonempty: "length (wave2_operations env avail :: (js_error + 'r wave_value) list) \<noteq> 0"
    using assms(2) wave2_scheduled_empty [of avail] by (simp add: wave2_operations_def)
  have "(runPreReconWave2 env avail pipelineTestingMode order
            :: (js_error + (string \<rightharpoonup> 'r wave_value)) option) =
          (case promise_all order (wave2_operations env avail :: (js_error + 'r wave_value) list) of
             None \<Rightarrow> None
           | Some (Inl e) \<Rightarrow> Some (Inl e)
           | Some (Inr results) \<Rightarrow> Some (Inr (wave2_response avail results)))"
    unfolding runPreReconWave2_def Let_def using assms(1) nonempty by simp
  also have "\<dots> = Some (Inr (wave2_response avail
                 (map (\<lambda>t. Scan (runTerminalScan env t)) (wave2_scheduled avail))))"
    by (simp only: wave2_results_in_push_order [OF assms(3)] option.case sum.case)
  finally show ?thesis
    by (simp only: wave2_response_named)
qed

lemma dom_four_keys: "dom [a \<mapsto> w, b \<mapsto> x, c \<mapsto> y, d \<mapsto> z] = {a, b, c, d}"
  by auto

lemma wave2_short_circuit:
  assumes "pipelineTestingMode \<or>
           \<not> (avail ''schemathesis'' \<or> avail ''httpx'' \<or> avail ''nuclei'' \<or> avail ''sqlmap'')"
  shows "(runPreReconWave2 env avail pipelineTestingMode order
            :: (js_error + (string \<rightharpoonup> 'r wave_value)) option) =
     Some (Inr [''schemathesis'' \<mapsto>
                  Scan (skipped ''schemathesis''
                          (if pipelineTestingMode then ''Skipped (pipeline testing mode)''
                           else ''Tool not available'') 0)])"
proof (cases pipelineTestingMode)
  case True
  then show ?thesis by (simp add: runPreReconWave2_def)
next
  case False
  then have "length (wave2_operations env avail :: (js_error + 'r wave_value) list) = 0"
    using assms wave2_scheduled_empty [of avail] by (simp add: wave2_operations_def)
  then show ?thesis
    using False by (simp add: runPreReconWave2_def Let_def not_available_def)
qed

text \<open>
  C1 (as amended). With pipeline-testing mode off, at least one of schemathesis, httpx,
  nuclei and sqlmap available, and the scheduled scans completing in any order, wave 2
  resolves to a map that binds each available tool's name to the result of that tool's
  own scan and each unavailable tool's name to the skipped result "Tool not available".
\<close>

theorem wave2_attribution_by_name:
  assumes "\<not> pipelineTestingMode"
    and "avail ''schemathesis'' \<or> avail ''httpx'' \<or> avail ''nuclei'' \<or> avail ''sqlmap''"
    and "completion_order (length (wave2_scheduled avail)) order"
  shows "(runPreReconWave2 env avail pipelineTestingMode order
            :: (js_error + (string \<rightharpoonup> 'r wave_value)) option) =
     Some (Inr
       [''schemathesis'' \<mapsto> (if avail ''schemathesis'' then Scan (runTerminalScan env ''schemathesis'') else Scan (skipped ''schemathesis'' ''Tool not available'' 0)),
        ''httpx'' \<mapsto> (if avail ''httpx'' then Scan (runTerminalScan env ''httpx'') else Scan (skipped ''httpx'' ''Tool not available'' 0)),
        ''nuclei'' \<mapsto> (if avail ''nuclei'' then Scan (runTerminalScan env ''nuclei'') else Scan (skipped ''nuclei'' ''Tool not available'' 0)),
        ''sqlmap'' \<mapsto> (if avail ''sqlmap'' then Scan (runTerminalScan env ''sqlmap'') else Scan (skipped ''sqlmap'' ''Tool not available'' 0))])"
  using wave2_resolves [OF assms, of env] by (simp only: not_available_def)

theorem wave2_attribution_by_name_witness:
  "\<not> False \<and> httpx_and_sqlmap ''httpx'' \<and>
   completion_order (length (wave2_scheduled httpx_and_sqlmap)) [1, 0] \<and>
   (runPreReconWave2 calm_env httpx_and_sqlmap False [1, 0]
      :: (js_error + (string \<rightharpoonup> unit wave_value)) option) =
     Some (Inr
       [''schemathesis'' \<mapsto> Scan (skipped ''schemathesis'' ''Tool not available'' 0),
        ''httpx'' \<mapsto> Scan (runTerminalScan calm_env ''httpx''),
        ''nuclei'' \<mapsto> Scan (skipped ''nuclei'' ''Tool not available'' 0),
        ''sqlmap'' \<mapsto> Scan (runTerminalScan calm_env ''sqlmap'')])"
proof -
  have sched: "wave2_scheduled httpx_and_sqlmap = [''httpx'', ''sqlmap'']"
    by (simp add: wave2_scheduled_def httpx_and_sqlmap_def)
  have order: "completion_order (length (wave2_scheduled httpx_and_sqlmap)) [1, 0]"
    by (auto simp: completion_order_def sched)
  have some: "httpx_and_sqlmap ''schemathesis'' \<or> httpx_and_sqlmap ''httpx'' \<or>
              httpx_and_sqlmap ''nuclei'' \<or> httpx_and_sqlmap ''sqlmap''"
    by (simp add: httpx_and_sqlmap_def)
  have off: "\<not> False" by simp
  show ?thesis
    using wave2_attribution_by_name [OF off some order, of calm_env] order
    by (simp add: httpx_and_sqlmap_def)
qed

text \<open>
  Counterexample to C1 as stated: in pipeline-testing mode, with all four tools
  available, the wave binds schemathesis to a skipped result and binds no other name.
\<close>

theorem wave2_attribution_counterexample:
  "every_tool ''httpx'' \<and>
   (runPreReconWave2 calm_env every_tool True [2, 0, 3, 1]
      :: (js_error + (string \<rightharpoonup> unit wave_value)) option) =
     Some (Inr [''schemathesis'' \<mapsto> Scan (skipped ''schemathesis'' ''Skipped (pipeline testing mode)'' 0)]) \<and>
   binding (runPreReconWave2 calm_env every_tool True [2, 0, 3, 1]
      :: (js_error + (string \<rightharpoonup> unit wave_value)) option) ''httpx'' = None"
  by (simp add: runPreReconWave2_def every_tool_def binding_def)

text \<open>
  C10. When every wave-2 tool is unavailable, or pipeline-testing mode is on, wave 2
  returns a map whose only key is schemathesis, bound to a result of status skipped;
  otherwise (some tool available, the mode off, the scans completed) the map has the
  four keys schemathesis, httpx, nuclei and sqlmap.
\<close>

theorem wave2_key_sets:
  "(pipelineTestingMode \<or> \<not> (avail ''schemathesis'' \<or> avail ''httpx'' \<or> avail ''nuclei'' \<or> avail ''sqlmap'')
      \<longrightarrow> (\<exists>response r.
             (runPreReconWave2 env avail pipelineTestingMode order
                :: (js_error + (string \<rightharpoonup> 'r wave_value)) option) = Some (Inr response) \<and>
             dom response = {''schemathesis''} \<and>
             response ''schemathesis'' = Some (Scan r) \<and> status r = ''skipped'')) \<and>
   (\<not> pipelineTestingMode \<and> (avail ''schemathesis'' \<or> avail ''httpx'' \<or> avail ''nuclei'' \<or> avail ''sqlmap'') \<and>
    completion_order (length (wave2_scheduled avail)) order
      \<longrightarrow> (\<exists>response.
             (runPreReconWave2 env avail pipelineTestingMode order
                :: (js_error + (string \<rightharpoonup> 'r wave_value)) option) = Some (Inr response) \<and>
             dom response = {''schemathesis'', ''httpx'', ''nuclei'', ''sqlmap''}))"
proof (intro conjI impI)
  assume short: "pipelineTestingMode \<or>
                 \<not> (avail ''schemathesis'' \<or> avail ''httpx'' \<or> avail ''nuclei'' \<or> avail ''sqlmap'')"
  show "\<exists>response r.
          (runPreReconWave2 env avail pipelineTestingMode order
             :: (js_error + (string \<rightharpoonup> 'r wave_value)) option) = Some (Inr response) \<and>
          dom response = {''schemathesis''} \<and>
          response ''schemathesis'' = Some (Scan r) \<and> status r = ''skipped''"
    unfolding wave2_short_circuit [OF short]
    by (intro exI [of _ "[''schemathesis'' \<mapsto> Scan (skipped ''schemathesis'' _ 0)]"]
              exI [of _ "skipped ''schemathesis'' _ 0"])
       (simp add: skipped_def)
next
  assume full: "\<not> pipelineTestingMode \<and>
                (avail ''schemathesis'' \<or> avail ''httpx'' \<or> avail ''nuclei'' \<or> avail ''sqlmap'') \<and>
                completion_order (length (wave2_scheduled avail)) order"
  then have off: "\<not> pipelineTestingMode"
    and some: "avail ''schemathesis'' \<or> avail ''httpx'' \<or> avail ''nuclei'' \<or> avail ''sqlmap''"
    and ord: "completion_order (length (wave2_scheduled avail)) order"
    by simp_all
  show "\<exists>response.
          (runPreReconWave2 env avail pipelineTestingMode order
             :: (js_error + (string \<rightharpoonup> 'r wave_value)) option) = Some (Inr response) \<and>
          dom response = {''schemathesis'', ''httpx'', ''nuclei'', ''sqlmap''}"
    unfolding wave2_resolves [OF off some ord]
    by (intro exI conjI) (rule refl, rule dom_four_keys)
qed

theorem wave2_key_sets_witness:
  "(True \<or> \<not> (every_tool ''schemathesis'' \<or> every_tool ''httpx'' \<or> every_tool ''nuclei'' \<or> every_tool ''sqlmap'')) \<and>
   (\<exists>response r.
      (runPreReconWave2 calm_env every_tool True [2, 0, 3, 1]
         :: (js_error + (string \<rightharpoonup> unit wave_value)) option) = Some (Inr response) \<and>
      dom response = {''schemathesis''} \<and>
      response ''schemathesis'' = Some (Scan r) \<and> status r = ''skipped'') \<and>
   (\<not> False \<and> (every_tool ''schemathesis'' \<or> every_tool ''httpx'' \<or> every_tool ''nuclei'' \<or> every_tool ''sqlmap'') \<and>
    completion_order (length (wave2_scheduled every_tool)) [2, 0, 3, 1]) \<and>
   (\<exists>response.
      (runPreReconWave2 calm_env every_tool False [2, 0, 3, 1]
         :: (js_error + (string \<rightharpoonup> unit wave_value)) option) = Some (Inr response) \<and>
      dom response = {''schemathesis'', ''httpx'', ''nuclei'', ''sqlmap''})"
proof -
  have ord: "completion_order (length (wave2_scheduled every_tool)) [2, 0, 3, 1]"
    by (auto simp: completion_order_def wave2_scheduled_def every_tool_def)
  have some: "every_tool ''schemathesis'' \<or> every_tool ''httpx'' \<or> every_tool ''nuclei'' \<or> every_tool ''sqlmap''"
    by (simp add: every_tool_def)
  show ?thesis
    using wave2_key_sets [of True every_tool calm_env "[2, 0, 3, 1]", where 'r = unit]
          wave2_key_sets [of False every_tool calm_env "[2, 0, 3, 1]", where 'r = unit]
          ord some
    by simp
qed

section \<open>Terminal scans and wave 1\<close>

lemma command_scan_failed:
  assumes "t \<in> {''nmap'', ''subfinder'', ''whatweb'', ''naabu'', ''httpx'', ''nuclei'', ''sqlmap''}"
    and "command_outcome env t = Inl e"
  shows "runTerminalScan env t =
           \<lparr>tool = t, output_str = summarise env t e, status = ''failed'', duration = 0\<rparr>"
  using assms
  by (elim insertE emptyE;
      simp add: runTerminalScan_def run_on_host_def run_command_def command_outcome_def
                handleToolError_def succeeded_def split: sum.splits)

lemma command_scan_succeeded:
  assumes "t \<in> {''nmap'', ''subfinder'', ''whatweb'', ''naabu'', ''httpx'', ''nuclei'', ''sqlmap''}"
    and "command_outcome env t = Inr out"
  shows "runTerminalScan env t =
           \<lparr>tool = t, output_str = (if t = ''nuclei'' \<and> out = [] then ''No findings'' else out),
            status = ''success'', duration = elapsed env t\<rparr>"
  using assms
  by (elim insertE emptyE;
      simp add: runTerminalScan_def run_on_host_def run_command_def command_outcome_def
                handleToolError_def succeeded_def split: sum.splits)

lemma wave1_resolves:
  assumes "\<not> pipelineTestingMode"
    and "isBlackbox \<or> code_analysis = Inr r"
    and "completion_order (length (wave1_operations env avail isBlackbox code_analysis)) order"
  shows "runPreReconWave1 env avail pipelineTestingMode isBlackbox code_analysis order =
     Some (Inr
       [''nmap'' \<mapsto> Scan (runTerminalScan env ''nmap''),
        ''subfinder'' \<mapsto> Scan (runTerminalScan env ''subfinder''),
        ''whatweb'' \<mapsto> Scan (runTerminalScan env ''whatweb''),
        ''naabu'' \<mapsto> (if avail ''naabu'' then Scan (runTerminalScan env ''naabu'') else not_available ''naabu''),
        ''codeAnalysis'' \<mapsto> (if isBlackbox then blackbox_skipped else Agent r)])"
proof -
  define n0 where "n0 = (Scan (runTerminalScan env ''nmap'') :: 'a wave_value)"
  define n1 where "n1 = (Scan (runTerminalScan env ''subfinder'') :: 'a wave_value)"
  define n2 where "n2 = (Scan (runTerminalScan env ''whatweb'') :: 'a wave_value)"
  define n3 where "n3 = (if avail ''naabu'' then Scan (runTerminalScan env ''naabu'')
                         else not_available ''naabu'' :: 'a wave_value)"
  define vs where "vs = [n0, n1, n2, n3] @ (if isBlackbox then [] else [Agent r])"
  have ops: "wave1_operations env avail isBlackbox code_analysis = map Inr vs"
    using assms(2) by (auto simp: wave1_operations_def vs_def n0_def n1_def n2_def n3_def)
  have ord: "completion_order (length vs) order"
    using assms(3) by (simp add: ops)
  have settled: "promise_all order (wave1_operations env avail isBlackbox code_analysis) = Some (Inr vs)"
    unfolding ops by (rule promise_all_fulfilled [OF ord])
  have at: "at_index vs 0 = n0" "at_index vs 1 = n1" "at_index vs 2 = n2" "at_index vs 3 = n3"
    by (simp_all add: at_index_def vs_def)
  have at4: "(if isBlackbox then blackbox_skipped else at_index vs 4) =
             (if isBlackbox then blackbox_skipped else Agent r)"
    by (simp add: at_index_def vs_def)
  have "runPreReconWave1 env avail pipelineTestingMode isBlackbox code_analysis order =
     Some (Inr [''nmap'' \<mapsto> at_index vs 0, ''subfinder'' \<mapsto> at_index vs 1,
                ''whatweb'' \<mapsto> at_index vs 2, ''naabu'' \<mapsto> at_index vs 3,
                ''codeAnalysis'' \<mapsto> (if isBlackbox then blackbox_skipped else at_index vs 4)])"
    unfolding runPreReconWave1_def using assms(1) by (simp only: settled if_False option.case sum.case)
  then show ?thesis
    by (simp only: at at4 n0_def n1_def n2_def n3_def)
qed

lemma wave1_binds_scan:
  assumes "\<not> pipelineTestingMode"
    and "isBlackbox \<or> code_analysis = Inr r"
    and "completion_order (length (wave1_operations env avail isBlackbox code_analysis)) order"
    and "t \<in> {''nmap'', ''subfinder'', ''whatweb''} \<or> t = ''naabu'' \<and> avail ''naabu''"
  shows "binding (runPreReconWave1 env avail pipelineTestingMode isBlackbox code_analysis order) t
           = Some (Scan (runTerminalScan env t))"
  unfolding wave1_resolves [OF assms(1-3)] binding_def
  using assms(4) by (elim disjE insertE emptyE conjE; simp)

lemma wave1_binds_skipped:
  assumes "\<not> pipelineTestingMode"
    and "isBlackbox \<or> code_analysis = Inr r"
    and "completion_order (length (wave1_operations env avail isBlackbox code_analysis)) order"
    and "\<not> avail ''naabu''"
  shows "binding (runPreReconWave1 env avail pipelineTestingMode isBlackbox code_analysis order) ''naabu''
           = Some (Scan \<lparr>tool = ''naabu'', output_str = ''Tool not available'', status = ''skipped'', duration = 0\<rparr>)"
  unfolding wave1_resolves [OF assms(1-3)] binding_def
  using assms(4) by (simp add: not_available_def skipped_def)

lemma wave2_binds:
  assumes "\<not> pipelineTestingMode"
    and "avail ''schemathesis'' \<or> avail ''httpx'' \<or> avail ''nuclei'' \<or> avail ''sqlmap''"
    and "completion_order (length (wave2_scheduled avail)) order"
    and "t \<in> {''schemathesis'', ''httpx'', ''nuclei'', ''sqlmap''}"
  shows "binding (runPreReconWave2 env avail pipelineTestingMode order) t
           = Some (if avail t then Scan (runTerminalScan env t)
                   else Scan \<lparr>tool = t, output_str = ''Tool not available'', status = ''skipped'', duration = 0\<rparr>)"
  unfolding wave2_resolves [OF assms(1-3)] binding_def
  using assms(4) by (elim insertE emptyE; simp add: not_available_def skipped_def)

lemma wave2_not_scheduled:
  assumes "t \<in> {''schemathesis'', ''httpx'', ''nuclei'', ''sqlmap''}" and "\<not> avail t"
  shows "t \<notin> set (wave2_scheduled avail)"
  using assms by (elim insertE emptyE; simp add: wave2_scheduled_def)

text \<open>
  C4 (as amended). Outside pipeline-testing mode, and when the code analysis agent of
  wave 1 is not scheduled or fulfils, both waves resolve. Each scheduled scan that runs
  one external command (nmap, subfinder, whatweb, naabu; httpx, nuclei, sqlmap) has the
  entry of status failed with the error summary as output when its URL parsing or its
  command fails, and the entry of status success with the captured output (for nuclei,
  "No findings" in place of an empty output) and the duration when the command exits
  with code 0. naabu in wave 1 and each tool of wave 2, when marked unavailable, has
  the entry of status skipped with output "Tool not available", and in wave 2 it is not
  among the scheduled scans.
\<close>

theorem wave_scans_isolated:
  assumes off: "\<not> pipelineTestingMode"
    and agent: "isBlackbox \<or> code_analysis = (Inr r :: js_error + 'r)"
    and ord1: "completion_order (length (wave1_operations env avail isBlackbox code_analysis)) order1"
    and ord2: "completion_order (length (wave2_scheduled avail)) order2"
    and w1: "wave1 = runPreReconWave1 env avail pipelineTestingMode isBlackbox code_analysis order1"
    and w2: "wave2 = (runPreReconWave2 env avail pipelineTestingMode order2
                        :: (js_error + (string \<rightharpoonup> 'r wave_value)) option)"
  shows
    "(\<exists>response. wave1 = Some (Inr response)) \<and>
     (\<forall>t e. (t \<in> {''nmap'', ''subfinder'', ''whatweb''} \<or> t = ''naabu'' \<and> avail ''naabu'') \<and>
            command_outcome env t = Inl e \<longrightarrow>
            binding wave1 t =
              Some (Scan \<lparr>tool = t, output_str = summarise env t e, status = ''failed'', duration = 0\<rparr>)) \<and>
     (\<forall>t out. (t \<in> {''nmap'', ''subfinder'', ''whatweb''} \<or> t = ''naabu'' \<and> avail ''naabu'') \<and>
            command_outcome env t = Inr out \<longrightarrow>
            binding wave1 t =
              Some (Scan \<lparr>tool = t, output_str = out, status = ''success'', duration = elapsed env t\<rparr>)) \<and>
     (\<not> avail ''naabu'' \<longrightarrow>
        binding wave1 ''naabu'' =
          Some (Scan \<lparr>tool = ''naabu'', output_str = ''Tool not available'', status = ''skipped'', duration = 0\<rparr>)) \<and>
     (avail ''schemathesis'' \<or> avail ''httpx'' \<or> avail ''nuclei'' \<or> avail ''sqlmap'' \<longrightarrow>
        (\<exists>response. wave2 = Some (Inr response)) \<and>
        (\<forall>t e. t \<in> {''httpx'', ''nuclei'', ''sqlmap''} \<and> avail t \<and> command_outcome env t = Inl e \<longrightarrow>
            binding wave2 t =
              Some (Scan \<lparr>tool = t, output_str = summarise env t e, status = ''failed'', duration = 0\<rparr>)) \<and>
        (\<forall>t out. t \<in> {''httpx'', ''nuclei'', ''sqlmap''} \<and> avail t \<and> command_outcome env t = Inr out \<longrightarrow>
            binding wave2 t =
              Some (Scan \<lparr>tool = t,
                          output_str = (if t = ''nuclei'' \<and> out = [] then ''No findings'' else out),
                          status = ''success'', duration = elapsed env t\<rparr>)) \<and>
        (\<forall>t. t \<in> {''schemathesis'', ''httpx'', ''nuclei'', ''sqlmap''} \<and> \<not> avail t \<longrightarrow>
            binding wave2 t =
              Some (Scan \<lparr>tool = t, output_str = ''Tool not available'', status = ''skipped'', duration = 0\<rparr>) \<and>
            t \<notin> set (wave2_scheduled avail)))"
proof (intro conjI allI impI)
  show "\<exists>response. wave1 = Some (Inr response)"
    unfolding w1 wave1_resolves [OF off agent ord1] by (rule exI, rule refl)
next
  fix t e
  assume h: "(t \<in> {''nmap'', ''subfinder'', ''whatweb''} \<or> t = ''naabu'' \<and> avail ''naabu'') \<and>
             command_outcome env t = Inl e"
  then have "t \<in> {''nmap'', ''subfinder'', ''whatweb'', ''naabu'', ''httpx'', ''nuclei'', ''sqlmap''}"
    by (elim conjE disjE insertE emptyE; simp)
  then have "runTerminalScan env t =
      \<lparr>tool = t, output_str = summarise env t e, status = ''failed'', duration = 0\<rparr>"
    using h by (intro command_scan_failed) simp_all
  then show "binding wave1 t =
      Some (Scan \<lparr>tool = t, output_str = summarise env t e, status = ''failed'', duration = 0\<rparr>)"
    unfolding w1 using wave1_binds_scan [OF off agent ord1, of t] h by simp
next
  fix t out
  assume h: "(t \<in> {''nmap'', ''subfinder'', ''whatweb''} \<or> t = ''naabu'' \<and> avail ''naabu'') \<and>
             command_outcome env t = Inr out"
  then have mem: "t \<in> {''nmap'', ''subfinder'', ''whatweb'', ''naabu'', ''httpx'', ''nuclei'', ''sqlmap''}"
    by (elim conjE disjE insertE emptyE; simp)
  have "t \<noteq> ''nuclei''" using h by (elim conjE disjE insertE emptyE; simp)
  then have "runTerminalScan env t =
      \<lparr>tool = t, output_str = out, status = ''success'', duration = elapsed env t\<rparr>"
    using command_scan_succeeded [OF mem, of env out] h by simp
  then show "binding wave1 t =
      Some (Scan \<lparr>tool = t, output_str = out, status = ''success'', duration = elapsed env t\<rparr>)"
    unfolding w1 using wave1_binds_scan [OF off agent ord1, of t] h by simp
next
  assume "\<not> avail ''naabu''"
  then show "binding wave1 ''naabu'' =
      Some (Scan \<lparr>tool = ''naabu'', output_str = ''Tool not available'', status = ''skipped'', duration = 0\<rparr>)"
    unfolding w1 by (rule wave1_binds_skipped [OF off agent ord1])
next
  assume some: "avail ''schemathesis'' \<or> avail ''httpx'' \<or> avail ''nuclei'' \<or> avail ''sqlmap''"
  show "\<exists>response. wave2 = Some (Inr response)"
    unfolding w2 wave2_resolves [OF off some ord2] by (rule exI, rule refl)
next
  fix t e
  assume some: "avail ''schemathesis'' \<or> avail ''httpx'' \<or> avail ''nuclei'' \<or> avail ''sqlmap''"
    and h: "t \<in> {''httpx'', ''nuclei'', ''sqlmap''} \<and> avail t \<and> command_outcome env t = Inl e"
  then have mem: "t \<in> {''nmap'', ''subfinder'', ''whatweb'', ''naabu'', ''httpx'', ''nuclei'', ''sqlmap''}"
    and mem2: "t \<in> {''schemathesis'', ''httpx'', ''nuclei'', ''sqlmap''}"
    by (elim conjE insertE emptyE; simp)+
  have "runTerminalScan env t =
      \<lparr>tool = t, output_str = summarise env t e, status = ''failed'', duration = 0\<rparr>"
    using command_scan_failed [OF mem, of env e] h by simp
  then show "binding wave2 t =
      Some (Scan \<lparr>tool = t, output_str = summarise env t e, status = ''failed'', duration = 0\<rparr>)"
    unfolding w2 using wave2_binds [OF off some ord2 mem2, of env] h by simp
next
  fix t out
  assume some: "avail ''schemathesis'' \<or> avail ''httpx'' \<or> avail ''nuclei'' \<or> avail ''sqlmap''"
    and h: "t \<in> {''httpx'', ''nuclei'', ''sqlmap''} \<and> avail t \<and> command_outcome env t = Inr out"
  then have mem: "t \<in> {''nmap'', ''subfinder'', ''whatweb'', ''naabu'', ''httpx'', ''nuclei'', ''sqlmap''}"
    and mem2: "t \<in> {''schemathesis'', ''httpx'', ''nuclei'', ''sqlmap''}"
    by (elim conjE insertE emptyE; simp)+
  have "runTerminalScan env t =
      \<lparr>tool = t, output_str = (if t = ''nuclei'' \<and> out = [] then ''No findings'' else out),
       status = ''success'', duration = elapsed env t\<rparr>"
    using command_scan_succeeded [OF mem, of env out] h by simp
  then show "binding wave2 t =
      Some (Scan \<lparr>tool = t,
                  output_str = (if t = ''nuclei'' \<and> out = [] then ''No findings'' else out),
                  status = ''success'', duration = elapsed env t\<rparr>)"
    unfolding w2 using wave2_binds [OF off some ord2 mem2, of env] h by simp
next
  fix t
  assume some: "avail ''schemathesis'' \<or> avail ''httpx'' \<or> avail ''nuclei'' \<or> avail ''sqlmap''"
    and h: "t \<in> {''schemathesis'', ''httpx'', ''nuclei'', ''sqlmap''} \<and> \<not> avail t"
  then have mem2: "t \<in> {''schemathesis'', ''httpx'', ''nuclei'', ''sqlmap''}" and un: "\<not> avail t"
    by simp_all
  show "binding wave2 t =
      Some (Scan \<lparr>tool = t, output_str = ''Tool not available'', status = ''skipped'', duration = 0\<rparr>)"
    unfolding w2 using wave2_binds [OF off some ord2 mem2, of env] un by simp
  show "t \<notin> set (wave2_scheduled avail)"
    using mem2 un by (rule wave2_not_scheduled)
qed

theorem wave_scans_isolated_witness:
  "\<not> False \<and> (False \<or> (Inr () :: js_error + unit) = Inr ()) \<and>
   completion_order (length (wave1_operations httpx_down_env no_naabu_no_nuclei False (Inr () :: js_error + unit)))
     [4, 0, 2, 1, 3] \<and>
   completion_order (length (wave2_scheduled no_naabu_no_nuclei)) [2, 0, 1] \<and>
   command_outcome httpx_down_env ''httpx'' = Inl (ProcessError [] ''exit code: 1'') \<and>
   binding (runPreReconWave2 httpx_down_env no_naabu_no_nuclei False [2, 0, 1]
              :: (js_error + (string \<rightharpoonup> unit wave_value)) option) ''httpx'' =
     Some (Scan \<lparr>tool = ''httpx'', output_str = ''exit code: 1'', status = ''failed'', duration = 0\<rparr>) \<and>
   binding (runPreReconWave2 httpx_down_env no_naabu_no_nuclei False [2, 0, 1]
              :: (js_error + (string \<rightharpoonup> unit wave_value)) option) ''sqlmap'' =
     Some (Scan \<lparr>tool = ''sqlmap'', output_str = ''report of sqlmap'', status = ''success'', duration = 5\<rparr>) \<and>
   binding (runPreReconWave2 httpx_down_env no_naabu_no_nuclei False [2, 0, 1]
              :: (js_error + (string \<rightharpoonup> unit wave_value)) option) ''nuclei'' =
     Some (Scan \<lparr>tool = ''nuclei'', output_str = ''Tool not available'', status = ''skipped'', duration = 0\<rparr>) \<and>
   binding (runPreReconWave1 httpx_down_env no_naabu_no_nuclei False False (Inr ()) [4, 0, 2, 1, 3]) ''nmap'' =
     Some (Scan \<lparr>tool = ''nmap'', output_str = ''report of nmap'', status = ''success'', duration = 5\<rparr>) \<and>
   binding (runPreReconWave1 httpx_down_env no_naabu_no_nuclei False False (Inr ()) [4, 0, 2, 1, 3]) ''naabu'' =
     Some (Scan \<lparr>tool = ''naabu'', output_str = ''Tool not available'', status = ''skipped'', duration = 0\<rparr>)"
proof -
  have h1: "\<not> False" by simp
  have h2: "False \<or> (Inr () :: js_error + unit) = Inr ()" by simp
  have h3: "completion_order
              (length (wave1_operations httpx_down_env no_naabu_no_nuclei False (Inr () :: js_error + unit)))
              [4, 0, 2, 1, 3]"
    by (auto simp: completion_order_def wave1_operations_def)
  have h4: "completion_order (length (wave2_scheduled no_naabu_no_nuclei)) [2, 0, 1]"
    by (auto simp: completion_order_def wave2_scheduled_def no_naabu_no_nuclei_def)
  note T = wave_scans_isolated [OF h1 h2 h3 h4 refl refl]
  have some: "no_naabu_no_nuclei ''schemathesis'' \<or> no_naabu_no_nuclei ''httpx'' \<or>
              no_naabu_no_nuclei ''nuclei'' \<or> no_naabu_no_nuclei ''sqlmap''"
    by (simp add: no_naabu_no_nuclei_def)
  note W1_ok = T [THEN conjunct2, THEN conjunct2, THEN conjunct1, rule_format]
  note W1_skip = T [THEN conjunct2, THEN conjunct2, THEN conjunct2, THEN conjunct1, rule_format]
  note W2 = T [THEN conjunct2, THEN conjunct2, THEN conjunct2, THEN conjunct2, rule_format, OF some]
  note W2_fail = W2 [THEN conjunct2, THEN conjunct1, rule_format]
  note W2_ok = W2 [THEN conjunct2, THEN conjunct2, THEN conjunct1, rule_format]
  note W2_skip = W2 [THEN conjunct2, THEN conjunct2, THEN conjunct2, rule_format]
  have down: "command_outcome httpx_down_env ''httpx'' = Inl (ProcessError [] ''exit code: 1'')"
    by (simp add: command_outcome_def httpx_down_env_def calm_env_def)
  have up: "command_outcome httpx_down_env ''sqlmap'' = Inr ''report of sqlmap''"
    by (simp add: command_outcome_def httpx_down_env_def calm_env_def)
  have up1: "command_outcome httpx_down_env ''nmap'' = Inr ''report of nmap''"
    by (simp add: command_outcome_def httpx_down_env_def calm_env_def)
  have a: "binding (runPreReconWave2 httpx_down_env no_naabu_no_nuclei False [2, 0, 1]
              :: (js_error + (string \<rightharpoonup> unit wave_value)) option) ''httpx'' =
     Some (Scan \<lparr>tool = ''httpx'', output_str = ''exit code: 1'', status = ''failed'', duration = 0\<rparr>)"
    using W2_fail [of "''httpx''" "ProcessError [] ''exit code: 1''"] down
    by (simp add: no_naabu_no_nuclei_def httpx_down_env_def calm_env_def)
  have b: "binding (runPreReconWave2 httpx_down_env no_naabu_no_nuclei False [2, 0, 1]
              :: (js_error + (string \<rightharpoonup> unit wave_value)) option) ''sqlmap'' =
     Some (Scan \<lparr>tool = ''sqlmap'', output_str = ''report of sqlmap'', status = ''success'', duration = 5\<rparr>)"
    using W2_ok [of "''sqlmap''" "''report of sqlmap''"] up
    by (simp add: no_naabu_no_nuclei_def httpx_down_env_def calm_env_def)
  have c: "binding (runPreReconWave2 httpx_down_env no_naabu_no_nuclei False [2, 0, 1]
              :: (js_error + (string \<rightharpoonup> unit wave_value)) option) ''nuclei'' =
     Some (Scan \<lparr>tool = ''nuclei'', output_str = ''Tool not available'', status = ''skipped'', duration = 0\<rparr>)"
    using W2_skip [of "''nuclei''"] by (simp add: no_naabu_no_nuclei_def)
  have d: "binding (runPreReconWave1 httpx_down_env no_naabu_no_nuclei False False (Inr ()) [4, 0, 2, 1, 3]) ''nmap'' =
     Some (Scan \<lparr>tool = ''nmap'', output_str = ''report of nmap'', status = ''success'', duration = 5\<rparr>)"
    using W1_ok [of "''nmap''" "''report of nmap''"] up1
    by (simp add: httpx_down_env_def calm_env_def)
  have e: "binding (runPreReconWave1 httpx_down_env no_naabu_no_nuclei False False (Inr ()) [4, 0, 2, 1, 3]) ''naabu'' =
     Some (Scan \<lparr>tool = ''naabu'', output_str = ''Tool not available'', status = ''skipped'', duration = 0\<rparr>)"
    using W1_skip by (simp add: no_naabu_no_nuclei_def)
  show ?thesis
    using h3 h4 down a b c d e by simp
qed

text \<open>
  Counterexample to C4 as stated: in wave 1 the four scans succeed and the code analysis
  agent throws, and the wave rejects; and a schemathesis run that exits non-zero on its
  one schema yields an entry of status success.
\<close>

theorem wave_scans_isolated_counterexample:
  "status (runTerminalScan calm_env ''nmap'') = ''success'' \<and>
   status (runTerminalScan calm_env ''subfinder'') = ''success'' \<and>
   status (runTerminalScan calm_env ''whatweb'') = ''success'' \<and>
   status (runTerminalScan calm_env ''naabu'') = ''success'' \<and>
   runPreReconWave1 calm_env every_tool False False (Inl (Error ''agent failed'') :: js_error + unit)
     [0, 1, 2, 3, 4] = Some (Inl (Error ''agent failed'')) \<and>
   run_schema schema_down_env ''api.json'' = Inl (ProcessError [] ''exit code: 1'') \<and>
   status (runTerminalScan schema_down_env ''schemathesis'') = ''success''"
  by (simp add: runPreReconWave1_def wave1_operations_def promise_all_def every_tool_def
                runTerminalScan_def run_on_host_def run_command_def run_schemathesis_def
                succeeded_def calm_env_def schema_down_env_def isApiSchema_def endsWith_def)

section \<open>The retry loop, attempt by attempt\<close>

lemma trace_emit [simp]: "trace (emit ev st) = trace st @ [ev]"
  by (simp add: emit_def)

lemma costs_emit [simp]: "costResults (emit ev st) = costResults st"
  by (simp add: emit_def)

lemma trace_emit_if [simp]: "trace (emit_if b ev st) = trace st @ (if b then [ev] else [])"
  by (simp add: emit_if_def)

lemma costs_emit_if [simp]: "costResults (emit_if b ev st) = costResults st"
  by (simp add: emit_if_def)

lemma cycle_steps_append:
  "cycle_steps (xs @ ys) = cycle_steps xs @ cycle_steps ys"
  by (induction xs rule: cycle_steps.induct) simp_all

lemma run_attempt_body:
  fixes cfg :: config and attempt :: nat and st :: "'c::{plus,zero} orch_state"
  assumes "runClaudePrompt (isRetryableError imp) description w (costResults st) = (outcome, c')"
  defines "st2 \<equiv> emit (Executed attempt outcome)
                    ((emit_if (audited cfg) (StartAgent attempt) (emit (Checkpoint attempt) st))
                       \<lparr>costResults := c'\<rparr>)"
  shows "run_attempt imp cfg description agentName w attempt lastError st =
     (case outcome of
        Inl e \<Rightarrow> on_catch imp cfg attempt e st2
      | Inr r \<Rightarrow>
          if success r
          then
            if validateAgentOutput cfg (AGENT_VALIDATORS imp) r agentName (workspace w)
            then (Leave (Inr r),
                  emit CommitSuccess (emit_if (audited cfg) (EndAgent attempt True (cost r)) st2))
            else
              (let st3 = emit_if (audited cfg) (EndAgent attempt False (partial_or_cost r)) st2 in
               if attempt < maxRetries
               then (Continue (Some (if api_error_of r
                                     then Error ''API Error: terminated with validation failure''
                                     else Error ''Output validation failed'')),
                     emit (Rollback ''validation failure'') st3)
               else on_catch imp cfg attempt (validation_exhausted description) st3)
          else (Continue lastError, st2))"
  unfolding run_attempt_def Let_def st2_def using assms(1) by simp

lemma trace_after_execution:
  "trace (emit (Executed attempt outcome)
            ((emit_if b (StartAgent attempt) (emit (Checkpoint attempt) st))\<lparr>costResults := c'\<rparr>)) =
     trace st @ [Checkpoint attempt] @ (if b then [StartAgent attempt] else []) @ [Executed attempt outcome]"
  by (simp add: emit_def emit_if_def)

lemma on_catch_step:
  assumes "on_catch imp cfg attempt err st = (step, st')" and "err \<noteq> ThrownUndefined"
  shows "cycle_steps (trace st') = cycle_steps (trace st) @ [Restore]"
    and "CommitSuccess \<in> set (trace st') \<Longrightarrow> CommitSuccess \<in> set (trace st)"
    and "step = Leave (Inl err) \<or> step = Continue (Some err)"
    and "\<not> isRetryableError imp err \<Longrightarrow> step = Leave (Inl err)"
  using assms
  by (auto simp: on_catch_def Let_def cycle_steps_append split: if_splits)

lemma validation_failed_step:
  fixes st :: "'c::{plus,zero} orch_state"
  assumes hyp: "\<And>c. \<exists>r c'. runClaudePrompt (isRetryableError imp) description w c = (Inr r, c') \<and>
                    success r \<and>
                    \<not> validateAgentOutput cfg (AGENT_VALIDATORS imp) r agentName (workspace w)"
    and clean: "CommitSuccess \<notin> set (trace st)"
  obtains step st' where
    "run_attempt imp cfg description agentName w attempt lastError st = (step, st')"
    "cycle_steps (trace st') = cycle_steps (trace st) @ [Snapshot, Run, Restore]"
    "CommitSuccess \<notin> set (trace st')"
    "attempt < maxRetries \<Longrightarrow> \<exists>e. step = Continue (Some e)"
    "\<not> attempt < maxRetries \<Longrightarrow>
       step = Leave (Inl (validation_exhausted description)) \<or>
       step = Continue (Some (validation_exhausted description))"
proof -
  from hyp [of "costResults st"] obtain r c' where
    run: "runClaudePrompt (isRetryableError imp) description w (costResults st) = (Inr r, c')"
    and ok: "success r"
    and bad: "\<not> validateAgentOutput cfg (AGENT_VALIDATORS imp) r agentName (workspace w)"
    by blast
  define st2 where "st2 = emit (Executed attempt (Inr r))
                    ((emit_if (audited cfg) (StartAgent attempt) (emit (Checkpoint attempt) st))
                       \<lparr>costResults := c'\<rparr>)"
  define st3 where "st3 = emit_if (audited cfg) (EndAgent attempt False (partial_or_cost r)) st2"
  have tr2: "trace st2 = trace st @ [Checkpoint attempt] @
               (if audited cfg then [StartAgent attempt] else []) @ [Executed attempt (Inr r)]"
    unfolding st2_def by (rule trace_after_execution)
  have cyc3: "cycle_steps (trace st3) = cycle_steps (trace st) @ [Snapshot, Run]"
    by (simp add: st3_def tr2 cycle_steps_append)
  have clean3: "CommitSuccess \<notin> set (trace st3)"
    using clean by (simp add: st3_def tr2)
  have body: "run_attempt imp cfg description agentName w attempt lastError st =
     (if attempt < maxRetries
      then (Continue (Some (if api_error_of r
                            then Error ''API Error: terminated with validation failure''
                            else Error ''Output validation failed'')),
            emit (Rollback ''validation failure'') st3)
      else on_catch imp cfg attempt (validation_exhausted description) st3)"
    using run_attempt_body [OF run, where cfg = cfg and attempt = attempt
                             and agentName = agentName and lastError = lastError] ok bad
    by (simp add: Let_def st2_def st3_def)
  show thesis
  proof (cases "attempt < maxRetries")
    case True
    show thesis
    proof (rule that)
      show "run_attempt imp cfg description agentName w attempt lastError st =
              (Continue (Some (if api_error_of r
                               then Error ''API Error: terminated with validation failure''
                               else Error ''Output validation failed'')),
               emit (Rollback ''validation failure'') st3)"
        using body True by simp
      show "cycle_steps (trace (emit (Rollback ''validation failure'') st3)) =
              cycle_steps (trace st) @ [Snapshot, Run, Restore]"
        by (simp add: cycle_steps_append cyc3)
      show "CommitSuccess \<notin> set (trace (emit (Rollback ''validation failure'') st3))"
        using clean3 by simp
    qed (use True in simp_all)
  next
    case False
    obtain step st' where caught:
      "on_catch imp cfg attempt (validation_exhausted description) st3 = (step, st')"
      by (metis surj_pair)
    have defined: "validation_exhausted description \<noteq> ThrownUndefined"
      by (simp add: validation_exhausted_def)
    show thesis
    proof (rule that)
      show "run_attempt imp cfg description agentName w attempt lastError st = (step, st')"
        using body False caught by simp
      show "cycle_steps (trace st') = cycle_steps (trace st) @ [Snapshot, Run, Restore]"
        using on_catch_step(1) [OF caught defined] cyc3 by simp
      show "CommitSuccess \<notin> set (trace st')"
        using on_catch_step(2) [OF caught defined] clean3 by blast
      show "step = Leave (Inl (validation_exhausted description)) \<or>
            step = Continue (Some (validation_exhausted description))"
        using on_catch_step(3) [OF caught defined] .
    qed (use False in simp)
  qed
qed

lemma attempt_loop_continue:
  assumes "attempt \<le> maxRetries"
    and "run_attempt imp cfg description agentName (world attempt) attempt lastError st = (Continue le, st')"
    and "next_attempt = attempt + 1"
  shows "attempt_loop imp cfg description agentName world attempt lastError st =
           attempt_loop imp cfg description agentName world next_attempt le st'"
  using assms by (simp add: attempt_loop.simps [of _ _ _ _ _ attempt])

lemma attempt_loop_leave:
  assumes "attempt \<le> maxRetries"
    and "run_attempt imp cfg description agentName (world attempt) attempt lastError st = (Leave r, st')"
  shows "attempt_loop imp cfg description agentName world attempt lastError st = (r, st')"
  using assms by (simp add: attempt_loop.simps [of _ _ _ _ _ attempt])

lemma attempt_loop_exhausted:
  assumes "\<not> attempt \<le> maxRetries"
  shows "attempt_loop imp cfg description agentName world attempt lastError st =
           (Inl (case lastError of None \<Rightarrow> ThrownUndefined | Some e \<Rightarrow> e), st)"
  using assms by (simp add: attempt_loop.simps [of _ _ _ _ _ attempt])

lemma validation_exhausted_run:
  fixes costs :: "'c::{plus,zero} cost_results"
  assumes hyp: "\<And>n c. n \<in> {1, 2, 3} \<Longrightarrow>
                  \<exists>r c'. runClaudePrompt (isRetryableError imp) description (world n) c = (Inr r, c') \<and>
                         success r \<and>
                         \<not> validateAgentOutput cfg (AGENT_VALIDATORS imp) r agentName (workspace (world n))"
  obtains st' where
    "runClaudePromptWithRetry imp cfg description agentName world costs =
       (Inl (validation_exhausted description), st')"
    "cycle_steps (trace st') =
       [Snapshot, Run, Restore, Snapshot, Run, Restore, Snapshot, Run, Restore]"
    "CommitSuccess \<notin> set (trace st')"
proof -
  define st0 :: "'c orch_state" where "st0 = \<lparr>trace = [], costResults = costs\<rparr>"
  have clean0: "CommitSuccess \<notin> set (trace st0)" by (simp add: st0_def)
  have one: "(1::nat) \<in> {1, 2, 3}" and two: "(2::nat) \<in> {1, 2, 3}" and three: "(3::nat) \<in> {1, 2, 3}"
    by simp_all
  obtain step1 st1 where
    a1: "run_attempt imp cfg description agentName (world 1) 1 None st0 = (step1, st1)"
    and c1: "cycle_steps (trace st1) = cycle_steps (trace st0) @ [Snapshot, Run, Restore]"
    and k1: "CommitSuccess \<notin> set (trace st1)"
    and s1: "1 < maxRetries \<Longrightarrow> \<exists>e. step1 = Continue (Some e)"
    by (rule validation_failed_step [OF hyp [OF one] clean0, where attempt = 1 and lastError = None]) blast
  obtain e1 where e1: "step1 = Continue (Some e1)"
    using s1 by (auto simp: maxRetries_def)
  obtain step2 st2 where
    a2: "run_attempt imp cfg description agentName (world 2) 2 (Some e1) st1 = (step2, st2)"
    and c2: "cycle_steps (trace st2) = cycle_steps (trace st1) @ [Snapshot, Run, Restore]"
    and k2: "CommitSuccess \<notin> set (trace st2)"
    and s2: "2 < maxRetries \<Longrightarrow> \<exists>e. step2 = Continue (Some e)"
    by (rule validation_failed_step [OF hyp [OF two] k1, where attempt = 2 and lastError = "Some e1"]) blast
  obtain e2 where e2: "step2 = Continue (Some e2)"
    using s2 by (auto simp: maxRetries_def)
  obtain step3 st3 where
    a3: "run_attempt imp cfg description agentName (world 3) 3 (Some e2) st2 = (step3, st3)"
    and c3: "cycle_steps (trace st3) = cycle_steps (trace st2) @ [Snapshot, Run, Restore]"
    and k3: "CommitSuccess \<notin> set (trace st3)"
    and s3: "\<not> 3 < maxRetries \<Longrightarrow>
               step3 = Leave (Inl (validation_exhausted description)) \<or>
               step3 = Continue (Some (validation_exhausted description))"
    by (rule validation_failed_step [OF hyp [OF three] k2, where attempt = 3 and lastError = "Some e2"]) blast
  have last: "step3 = Leave (Inl (validation_exhausted description)) \<or>
              step3 = Continue (Some (validation_exhausted description))"
    using s3 by (simp add: maxRetries_def)
  have l4: "attempt_loop imp cfg description agentName world 4 (Some (validation_exhausted description)) st3 =
              (Inl (validation_exhausted description), st3)"
    by (simp add: attempt_loop_exhausted maxRetries_def)
  have l3: "attempt_loop imp cfg description agentName world 3 (Some e2) st2 =
              (Inl (validation_exhausted description), st3)"
  proof (cases "step3 = Leave (Inl (validation_exhausted description))")
    case True
    show ?thesis
      by (rule attempt_loop_leave) (simp add: maxRetries_def, use a3 True in simp)
  next
    case False
    then have "step3 = Continue (Some (validation_exhausted description))"
      using last by simp
    then have "attempt_loop imp cfg description agentName world 3 (Some e2) st2 =
          attempt_loop imp cfg description agentName world 4 (Some (validation_exhausted description)) st3"
      by (intro attempt_loop_continue) (simp add: maxRetries_def, use a3 in simp, simp)
    also note l4
    finally show ?thesis .
  qed
  have "attempt_loop imp cfg description agentName world 2 (Some e1) st1 =
          attempt_loop imp cfg description agentName world 3 (Some e2) st2"
    by (rule attempt_loop_continue) (simp add: maxRetries_def, use a2 e2 in simp, simp)
  also note l3
  finally have l2: "attempt_loop imp cfg description agentName world 2 (Some e1) st1 =
              (Inl (validation_exhausted description), st3)" .
  have "attempt_loop imp cfg description agentName world 1 None st0 =
          attempt_loop imp cfg description agentName world 2 (Some e1) st1"
    by (rule attempt_loop_continue) (simp add: maxRetries_def, use a1 e1 in simp, simp)
  also note l2
  finally have l1: "attempt_loop imp cfg description agentName world 1 None st0 =
              (Inl (validation_exhausted description), st3)" .
  show thesis
  proof (rule that)
    show "runClaudePromptWithRetry imp cfg description agentName world costs =
            (Inl (validation_exhausted description), st3)"
      using l1 by (simp add: runClaudePromptWithRetry_def st0_def)
    show "cycle_steps (trace st3) =
            [Snapshot, Run, Restore, Snapshot, Run, Restore, Snapshot, Run, Restore]"
      by (simp add: c3 c2 c1 st0_def)
    show "CommitSuccess \<notin> set (trace st3)" by (rule k3)
  qed
qed

lemma failed_execution_step:
  fixes st :: "'c::{plus,zero} orch_state"
  assumes hyp: "\<And>c. \<exists>r c'. runClaudePrompt (isRetryableError imp) description w c = (Inr r, c') \<and>
                    \<not> success r"
  obtains st' where
    "run_attempt imp cfg description agentName w attempt lastError st = (Continue lastError, st')"
    "cycle_steps (trace st') = cycle_steps (trace st) @ [Snapshot, Run]"
proof -
  from hyp [of "costResults st"] obtain r c' where
    run: "runClaudePrompt (isRetryableError imp) description w (costResults st) = (Inr r, c')"
    and bad: "\<not> success r"
    by blast
  define st2 where "st2 = emit (Executed attempt (Inr r))
                    ((emit_if (audited cfg) (StartAgent attempt) (emit (Checkpoint attempt) st))
                       \<lparr>costResults := c'\<rparr>)"
  have tr2: "trace st2 = trace st @ [Checkpoint attempt] @
               (if audited cfg then [StartAgent attempt] else []) @ [Executed attempt (Inr r)]"
    unfolding st2_def by (rule trace_after_execution)
  show thesis
  proof (rule that)
    show "run_attempt imp cfg description agentName w attempt lastError st = (Continue lastError, st2)"
      using run_attempt_body [OF run, where cfg = cfg and attempt = attempt
                               and agentName = agentName and lastError = lastError] bad
      by (simp add: st2_def)
    show "cycle_steps (trace st2) = cycle_steps (trace st) @ [Snapshot, Run]"
      by (simp add: tr2 cycle_steps_append)
  qed
qed

lemma returned_failures_run:
  fixes costs :: "'c::{plus,zero} cost_results"
  assumes hyp: "\<And>n c. n \<in> {1, 2, 3} \<Longrightarrow>
                  \<exists>r c'. runClaudePrompt (isRetryableError imp) description (world n) c = (Inr r, c') \<and>
                         \<not> success r"
  obtains st' where
    "runClaudePromptWithRetry imp cfg description agentName world costs = (Inl ThrownUndefined, st')"
    "cycle_steps (trace st') = [Snapshot, Run, Snapshot, Run, Snapshot, Run]"
proof -
  define st0 :: "'c orch_state" where "st0 = \<lparr>trace = [], costResults = costs\<rparr>"
  have one: "(1::nat) \<in> {1, 2, 3}" and two: "(2::nat) \<in> {1, 2, 3}" and three: "(3::nat) \<in> {1, 2, 3}"
    by simp_all
  obtain st1 where
    a1: "run_attempt imp cfg description agentName (world 1) 1 None st0 = (Continue None, st1)"
    and c1: "cycle_steps (trace st1) = cycle_steps (trace st0) @ [Snapshot, Run]"
    by (rule failed_execution_step [OF hyp [OF one], where cfg = cfg and agentName = agentName
                                           and attempt = 1 and lastError = None and st = st0]) blast
  obtain st2 where
    a2: "run_attempt imp cfg description agentName (world 2) 2 None st1 = (Continue None, st2)"
    and c2: "cycle_steps (trace st2) = cycle_steps (trace st1) @ [Snapshot, Run]"
    by (rule failed_execution_step [OF hyp [OF two], where cfg = cfg and agentName = agentName
                                           and attempt = 2 and lastError = None and st = st1]) blast
  obtain st3 where
    a3: "run_attempt imp cfg description agentName (world 3) 3 None st2 = (Continue None, st3)"
    and c3: "cycle_steps (trace st3) = cycle_steps (trace st2) @ [Snapshot, Run]"
    by (rule failed_execution_step [OF hyp [OF three], where cfg = cfg and agentName = agentName
                                           and attempt = 3 and lastError = None and st = st2]) blast
  have l4: "attempt_loop imp cfg description agentName world 4 None st3 = (Inl ThrownUndefined, st3)"
    by (simp add: attempt_loop_exhausted maxRetries_def)
  have "attempt_loop imp cfg description agentName world 3 None st2 =
          attempt_loop imp cfg description agentName world 4 None st3"
    by (rule attempt_loop_continue) (simp add: maxRetries_def, use a3 in simp, simp)
  also note l4
  finally have l3: "attempt_loop imp cfg description agentName world 3 None st2 = (Inl ThrownUndefined, st3)" .
  have "attempt_loop imp cfg description agentName world 2 None st1 =
          attempt_loop imp cfg description agentName world 3 None st2"
    by (rule attempt_loop_continue) (simp add: maxRetries_def, use a2 in simp, simp)
  also note l3
  finally have l2: "attempt_loop imp cfg description agentName world 2 None st1 = (Inl ThrownUndefined, st3)" .
  have "attempt_loop imp cfg description agentName world 1 None st0 =
          attempt_loop imp cfg description agentName world 2 None st1"
    by (rule attempt_loop_continue) (simp add: maxRetries_def, use a1 in simp, simp)
  also note l2
  finally have l1: "attempt_loop imp cfg description agentName world 1 None st0 = (Inl ThrownUndefined, st3)" .
  show thesis
  proof (rule that)
    show "runClaudePromptWithRetry imp cfg description agentName world costs = (Inl ThrownUndefined, st3)"
      using l1 by (simp add: runClaudePromptWithRetry_def st0_def)
    show "cycle_steps (trace st3) = [Snapshot, Run, Snapshot, Run, Snapshot, Run]"
      by (simp add: c3 c2 c1 st0_def)
  qed
qed

text \<open>
  The path the catch block does handle: an exception that leaves \<open>runClaudePrompt\<close> in the
  first attempt and is classed non-retryable ends the call after one checkpoint, one
  execution and one rollback.
\<close>

lemma thrown_non_retryable_stops:
  fixes costs :: "'c::{plus,zero} cost_results"
  assumes "escapes (world 1) = Some e" and "\<not> isRetryableError imp e"
    and "e \<noteq> ThrownUndefined"
  shows "fst (runClaudePromptWithRetry imp cfg description agentName world costs) = Inl e \<and>
         cycle_steps (trace (snd (runClaudePromptWithRetry imp cfg description agentName world costs))) =
           [Snapshot, Run, Restore]"
proof -
  define st0 :: "'c orch_state" where "st0 = \<lparr>trace = [], costResults = costs\<rparr>"
  have run: "runClaudePrompt (isRetryableError imp) description (world 1) (costResults st0) = (Inl e, costs)"
    using assms(1) by (simp add: runClaudePrompt_def st0_def)
  define st2 where "st2 = emit (Executed 1 (Inl e))
                    ((emit_if (audited cfg) (StartAgent 1) (emit (Checkpoint 1) st0))
                       \<lparr>costResults := costs\<rparr>)"
  have tr2: "trace st2 = trace st0 @ [Checkpoint 1] @
               (if audited cfg then [StartAgent 1] else []) @ [Executed 1 (Inl e)]"
    unfolding st2_def by (rule trace_after_execution)
  obtain step st' where caught: "on_catch imp cfg 1 e st2 = (step, st')"
    by (metis surj_pair)
  have step: "step = Leave (Inl e)"
    using on_catch_step(4) [OF caught assms(3) assms(2)] .
  have body: "run_attempt imp cfg description agentName (world 1) 1 None st0 = (Leave (Inl e), st')"
    using run_attempt_body [OF run, where cfg = cfg and attempt = 1
                             and agentName = agentName and lastError = None] caught step
    by (simp add: st2_def)
  have "attempt_loop imp cfg description agentName world 1 None st0 = (Inl e, st')"
    by (rule attempt_loop_leave) (simp add: maxRetries_def, use body in simp)
  then have whole: "runClaudePromptWithRetry imp cfg description agentName world costs = (Inl e, st')"
    by (simp add: runClaudePromptWithRetry_def st0_def)
  have "cycle_steps (trace st') = [Snapshot, Run, Restore]"
    using on_catch_step(1) [OF caught assms(3)] by (simp add: tr2 cycle_steps_append st0_def)
  then show ?thesis
    by (simp add: whole)
qed

text \<open>
  C2. When in each of the three attempts the execution reports success and the
  validation of its output fails, the retry orchestrator makes exactly three
  checkpoint, execute, rollback cycles and then throws the error of type "validation",
  classed non-retryable, that says validation was exhausted; no commit is made, and
  \<open>main\<close>, which rejects with that error, leaves the session, its checkpoints included,
  as it was.
\<close>

theorem validation_exhausted_after_three_cycles:
  fixes costs :: "'c::{plus,zero} cost_results"
  assumes "\<And>n c. n \<in> {1, 2, 3} \<Longrightarrow>
             \<exists>r c'. runClaudePrompt (isRetryableError imp) description (world n) c = (Inr r, c') \<and>
                    success r \<and>
                    \<not> validateAgentOutput cfg (AGENT_VALIDATORS imp) r agentName (workspace (world n))"
  shows "fst (runClaudePromptWithRetry imp cfg description agentName world costs) =
           Inl (PentestError
                  (''Agent '' @ description @
                   '' failed output validation after 3 attempts. Required deliverable files were not created.'')
                  ''validation'' False) \<and>
         cycle_steps (trace (snd (runClaudePromptWithRetry imp cfg description agentName world costs))) =
           [Snapshot, Run, Restore, Snapshot, Run, Restore, Snapshot, Run, Restore] \<and>
         CommitSuccess \<notin> set (trace (snd (runClaudePromptWithRetry imp cfg description agentName world costs))) \<and>
         snd (reporting_phase first_stored second_stored s
                (fst (runClaudePromptWithRetry imp cfg description agentName world costs)) hash) = s \<and>
         snd (recon_phase first_stored s
                (fst (runClaudePromptWithRetry imp cfg description agentName world costs))) = s"
proof -
  obtain st' where
    run: "runClaudePromptWithRetry imp cfg description agentName world costs =
            (Inl (validation_exhausted description), st')"
    and cyc: "cycle_steps (trace st') =
            [Snapshot, Run, Restore, Snapshot, Run, Restore, Snapshot, Run, Restore]"
    and clean: "CommitSuccess \<notin> set (trace st')"
    by (rule validation_exhausted_run [OF assms, where costs = costs]) blast
  show ?thesis
    using cyc clean
    by (simp add: run validation_exhausted_def reporting_phase_def recon_phase_def)
qed

theorem validation_exhausted_after_three_cycles_witness:
  "(\<forall>c. \<exists>r c'.
      runClaudePrompt (isRetryableError strict_collaborators) ''Recon agent'' empty_handed_world c
        = (Inr r, c') \<and>
      success r \<and>
      \<not> validateAgentOutput plain_config (AGENT_VALIDATORS strict_collaborators) r ''recon''
          (workspace empty_handed_world)) \<and>
   fst (runClaudePromptWithRetry strict_collaborators plain_config ''Recon agent'' ''recon''
          (\<lambda>n. empty_handed_world) no_costs) =
     Inl (PentestError
            ''Agent Recon agent failed output validation after 3 attempts. Required deliverable files were not created.''
            ''validation'' False) \<and>
   cycle_steps (trace (snd (runClaudePromptWithRetry strict_collaborators plain_config ''Recon agent'' ''recon''
          (\<lambda>n. empty_handed_world) no_costs))) =
     [Snapshot, Run, Restore, Snapshot, Run, Restore, Snapshot, Run, Restore] \<and>
   snd (reporting_phase True True fresh_session
          (fst (runClaudePromptWithRetry strict_collaborators plain_config ''Recon agent'' ''recon''
                  (\<lambda>n. empty_handed_world) no_costs)) (Inr (Some ''abc1234''))) = fresh_session"
proof -
  have hyp: "\<exists>r c'. runClaudePrompt (isRetryableError strict_collaborators) ''Recon agent'' empty_handed_world c
                = (Inr r, c') \<and>
             success r \<and>
             \<not> validateAgentOutput plain_config (AGENT_VALIDATORS strict_collaborators) r ''recon''
                 (workspace empty_handed_world)" for c :: "nat cost_results"
    by (simp add: runClaudePrompt_def empty_handed_world_def initial_run_state_def Let_def
                  toLowerCase_def lower_char_def truthy_def validateAgentOutput_def
                  strict_collaborators_def plain_config_def)
  note T = validation_exhausted_after_three_cycles
            [where imp = strict_collaborators and cfg = plain_config
               and description = "''Recon agent''" and agentName = "''recon''"
               and world = "\<lambda>n. empty_handed_world" and costs = no_costs
               and first_stored = True and second_stored = True
               and s = fresh_session and hash = "Inr (Some ''abc1234'')", OF hyp, simplified]
  show ?thesis
  proof (intro conjI allI)
    fix c :: "nat cost_results"
    show "\<exists>r c'. runClaudePrompt (isRetryableError strict_collaborators) ''Recon agent'' empty_handed_world c
                = (Inr r, c') \<and>
             success r \<and>
             \<not> validateAgentOutput plain_config (AGENT_VALIDATORS strict_collaborators) r ''recon''
                 (workspace empty_handed_world)"
      by (rule hyp)
  qed (use T in \<open>simp_all add: reporting_phase_def\<close>)
qed

text \<open>
  C3, on the code. The iterator throws in every attempt an error that the collaborators
  class non-retryable. \<open>runClaudePrompt\<close> returns it as a result with \<open>success: false\<close>
  and \<open>retryable: false\<close>; the retry loop reads neither field, makes all three attempts,
  rolls back none, and throws the unassigned \<open>lastError\<close>.
\<close>

theorem non_retryable_failure_is_retried:
  "fst (runClaudePrompt (isRetryableError strict_collaborators) ''Recon agent'' invalid_key_world no_costs) =
     Inr (Failure ''Invalid API key'' 0 False) \<and>
   fst (runClaudePromptWithRetry strict_collaborators plain_config ''Recon agent'' ''recon''
          (\<lambda>n. invalid_key_world) no_costs) = Inl ThrownUndefined \<and>
   cycle_steps (trace (snd (runClaudePromptWithRetry strict_collaborators plain_config ''Recon agent'' ''recon''
          (\<lambda>n. invalid_key_world) no_costs))) =
     [Snapshot, Run, Snapshot, Run, Snapshot, Run]"
proof -
  have ret: "runClaudePrompt (isRetryableError strict_collaborators) ''Recon agent'' invalid_key_world c =
               (Inr (Failure ''Invalid API key'' 0 False), c)" for c :: "nat cost_results"
    by (simp add: runClaudePrompt_def invalid_key_world_def initial_run_state_def
                  strict_collaborators_def)
  have hyp: "\<And>n c. n \<in> {1, 2, 3 :: nat} \<Longrightarrow>
      \<exists>r c'. runClaudePrompt (isRetryableError strict_collaborators) ''Recon agent''
               ((\<lambda>n. invalid_key_world) n) c = (Inr r, c') \<and> \<not> success r"
    by (simp add: ret)
  obtain st' where
    run: "runClaudePromptWithRetry strict_collaborators plain_config ''Recon agent'' ''recon''
            (\<lambda>n. invalid_key_world) no_costs = (Inl ThrownUndefined, st')"
    and cyc: "cycle_steps (trace st') = [Snapshot, Run, Snapshot, Run, Snapshot, Run]"
    by (rule returned_failures_run [OF hyp, where cfg = plain_config and agentName = "''recon''"
                                       and costs = no_costs]) blast
  show ?thesis
    using cyc by (simp add: run ret)
qed

text \<open>
  C5, on the code. The second message of every attempt carries "Session limit reached".
  \<open>runClaudePrompt\<close> throws the billing error inside its own try block and returns it as
  a failed result; whatever the collaborators say of its retryability, the retry loop
  makes all three attempts, rolls back none, and throws the unassigned \<open>lastError\<close>.
\<close>

theorem session_limit_is_retried:
  "fst (runClaudePrompt (isRetryableError imp) description session_limit_world no_costs) =
     Inr (Failure ''Session limit reached'' 0
            (isRetryableError imp (PentestError ''Session limit reached'' ''billing'' False))) \<and>
   fst (runClaudePromptWithRetry imp cfg description agentName (\<lambda>n. session_limit_world) no_costs) =
     Inl ThrownUndefined \<and>
   cycle_steps (trace (snd (runClaudePromptWithRetry imp cfg description agentName
                              (\<lambda>n. session_limit_world) no_costs))) =
     [Snapshot, Run, Snapshot, Run, Snapshot, Run]"
proof -
  have ret: "runClaudePrompt (isRetryableError imp) description session_limit_world c =
               (Inr (Failure ''Session limit reached'' 0
                      (isRetryableError imp (PentestError ''Session limit reached'' ''billing'' False))), c)"
    for c :: "nat cost_results"
    by (simp add: runClaudePrompt_def session_limit_world_def initial_run_state_def Let_def
                  toLowerCase_def lower_char_def)
  have hyp: "\<And>n c. n \<in> {1, 2, 3 :: nat} \<Longrightarrow>
      \<exists>r c'. runClaudePrompt (isRetryableError imp) description
               ((\<lambda>n. session_limit_world) n) c = (Inr r, c') \<and> \<not> success r"
    by (simp add: ret)
  obtain st' where
    run: "runClaudePromptWithRetry imp cfg description agentName (\<lambda>n. session_limit_world) no_costs =
            (Inl ThrownUndefined, st')"
    and cyc: "cycle_steps (trace st') = [Snapshot, Run, Snapshot, Run, Snapshot, Run]"
    by (rule returned_failures_run [OF hyp, where cfg = cfg and agentName = agentName
                                       and costs = no_costs]) blast
  show ?thesis
    using cyc by (simp add: run ret)
qed


text \<open>
  A stream that throws \<open>undefined\<close>: the catch block of \<open>runClaudePrompt\<close> throws a
  TypeError of its own, the retry loop catches it, and with collaborators that retry
  nothing the loop is left after one attempt and one rollback.
\<close>

lemma undefined_thrown_by_the_stream:
  "runClaudePromptWithRetry strict_collaborators plain_config ''Recon agent'' ''recon''
     (\<lambda>n. \<lparr>escapes = None, stream = [], stream_error = Some ThrownUndefined, workspace = []\<rparr>)
     no_costs =
   (Inl undefined_read,
    \<lparr>trace = [Checkpoint 1, StartAgent 1, Executed 1 (Inl undefined_read), EndAgent 1 False 0,
              Rollback ''non-retryable error cleanup''],
     costResults = no_costs\<rparr>)"
proof -
  have one: "(1::nat) \<le> maxRetries" by (simp add: maxRetries_def)
  have "run_attempt strict_collaborators plain_config ''Recon agent'' ''recon''
          \<lparr>escapes = None, stream = [], stream_error = Some ThrownUndefined, workspace = []\<rparr> 1 None
          \<lparr>trace = [], costResults = no_costs\<rparr> =
        (Leave (Inl undefined_read),
         \<lparr>trace = [Checkpoint 1, StartAgent 1, Executed 1 (Inl undefined_read), EndAgent 1 False 0,
                   Rollback ''non-retryable error cleanup''],
          costResults = no_costs\<rparr>)"
    by (simp add: run_attempt_def runClaudePrompt_def on_catch_def undefined_read_def
                  initial_run_state_def strict_collaborators_def plain_config_def emit_def emit_if_def)
  from attempt_loop_leave [where world = "\<lambda>n. \<lparr>escapes = None, stream = [], stream_error = Some ThrownUndefined, workspace = []\<rparr>", OF one this]
  show ?thesis
    unfolding runClaudePromptWithRetry_def by simp
qed

section \<open>Cost bookkeeping of the retry loop\<close>



















section \<open>Session progress\<close>

lemma set_insertions_set: "set (set_insertions seen xs) = set seen \<union> set xs"
  by (induction xs arbitrary: seen) auto

lemma unique_set: "set (unique xs) = set xs"
  by (simp add: unique_def set_insertions_set)

lemma getNextAgent_Some:
  "getNextAgent catalog s = Some a \<Longrightarrow>
     (\<exists>before after. catalog = before @ a # after \<and>
        (\<forall>b \<in> set before. name b \<in> set (completedAgents s))) \<and>
     name a \<notin> set (completedAgents s)"
proof (induction catalog)
  case Nil
  then show ?case by simp
next
  case (Cons c catalog)
  show ?case
  proof (cases "name c \<in> set (completedAgents s)")
    case True
    with Cons.prems have "getNextAgent catalog s = Some a" by simp
    from Cons.IH [OF this] obtain before after where
      split: "catalog = before @ a # after"
      and finished: "\<forall>b \<in> set before. name b \<in> set (completedAgents s)"
      and fresh: "name a \<notin> set (completedAgents s)"
      by blast
    have "c # catalog = (c # before) @ a # after" using split by simp
    moreover have "\<forall>b \<in> set (c # before). name b \<in> set (completedAgents s)"
      using True finished by simp
    ultimately show ?thesis using fresh by blast
  next
    case False
    with Cons.prems have "a = c" by simp
    then have "c # catalog = [] @ a # catalog" by simp
    then show ?thesis using False \<open>a = c\<close> by fastforce
  qed
qed

lemma getNextAgent_None:
  "(getNextAgent catalog s = None) = (\<forall>a \<in> set catalog. name a \<in> set (completedAgents s))"
  by (induction catalog) auto

text \<open>
  C6. For every session and catalog, an agent returned by \<open>getNextAgent\<close> is the first
  of the catalog whose name is not in \<open>completedAgents\<close> (every agent before it is
  completed, and it is not), and \<open>getNextAgent\<close> returns null if and only if
  \<open>completedAgents\<close> holds the name of every agent of the catalog.
\<close>

theorem getNextAgent_first_uncompleted:
  "(\<forall>a. getNextAgent catalog s = Some a \<longrightarrow>
        (\<exists>before after. catalog = before @ a # after \<and>
           (\<forall>b \<in> set before. name b \<in> set (completedAgents s))) \<and>
        name a \<notin> set (completedAgents s)) \<and>
   ((getNextAgent catalog s = None) = (\<forall>a \<in> set catalog. name a \<in> set (completedAgents s)))"
  using getNextAgent_Some [of catalog s] getNextAgent_None [of catalog s] by blast

theorem getNextAgent_first_uncompleted_witness:
  "getNextAgent short_catalog fresh_session = Some \<lparr>name = ''recon'', displayName = ''Recon agent''\<rparr> \<and>
   (\<exists>before after.
      short_catalog = before @ \<lparr>name = ''recon'', displayName = ''Recon agent''\<rparr> # after \<and>
      (\<forall>b \<in> set before. name b \<in> set (completedAgents fresh_session))) \<and>
   ''recon'' \<notin> set (completedAgents fresh_session) \<and>
   set (map name short_catalog) \<subseteq>
     set (completedAgents (fresh_session\<lparr>completedAgents := [''report'', ''pre-recon'', ''recon'']\<rparr>)) \<and>
   getNextAgent short_catalog (fresh_session\<lparr>completedAgents := [''report'', ''pre-recon'', ''recon'']\<rparr>) = None"
proof -
  have next_one: "getNextAgent short_catalog fresh_session =
                    Some \<lparr>name = ''recon'', displayName = ''Recon agent''\<rparr>"
    by (simp add: short_catalog_def fresh_session_def)
  have all_done: "\<forall>a \<in> set short_catalog.
      name a \<in> set (completedAgents (fresh_session\<lparr>completedAgents := [''report'', ''pre-recon'', ''recon'']\<rparr>))"
    by (simp add: short_catalog_def)
  note first = getNextAgent_first_uncompleted [of short_catalog fresh_session,
                 THEN conjunct1, rule_format, OF next_one]
  note none = getNextAgent_first_uncompleted
                [of short_catalog "fresh_session\<lparr>completedAgents := [''report'', ''pre-recon'', ''recon'']\<rparr>",
                 THEN conjunct2, THEN iffD2, OF all_done]
  have covered: "set (map name short_catalog) \<subseteq>
     set (completedAgents (fresh_session\<lparr>completedAgents := [''report'', ''pre-recon'', ''recon'']\<rparr>))"
    by (simp add: short_catalog_def)
  show ?thesis
    using next_one covered first none by simp
qed

lemma updateSessionProgress_stored:
  "updateSessionProgress True s agentName commitHash =
     s\<lparr>completedAgents := unique (completedAgents s @ [agentName]),
       failedAgents := filter (\<lambda>name. name \<noteq> agentName) (failedAgents s),
       session_status := ''in-progress'',
       checkpoints := (if truthy commitHash
                       then (checkpoints s)(agentName \<mapsto> the commitHash)
                       else checkpoints s)\<rparr>"
  by (simp add: updateSessionProgress_def)

text \<open>
  C7 (as amended). The progress update preserves the session invariant. When the
  session store accepts the update, afterwards \<open>agentName\<close> is in \<open>completedAgents\<close>
  and not in \<open>failedAgents\<close>; when the store throws, the session is left as it was.
  Either way the checkpoints map gains an entry for no agent but \<open>agentName\<close>, and it
  gains that one only while \<open>agentName\<close> is in \<open>completedAgents\<close>.
\<close>

theorem updateSessionProgress_keeps_invariant:
  assumes "session_inv s"
  shows "session_inv (updateSessionProgress stored s agentName commitHash) \<and>
         (stored \<longrightarrow>
            agentName \<in> set (completedAgents (updateSessionProgress stored s agentName commitHash)) \<and>
            agentName \<notin> set (failedAgents (updateSessionProgress stored s agentName commitHash))) \<and>
         (\<not> stored \<longrightarrow> updateSessionProgress stored s agentName commitHash = s) \<and>
         (\<forall>k. k \<in> dom (checkpoints (updateSessionProgress stored s agentName commitHash)) \<and>
              k \<notin> dom (checkpoints s) \<longrightarrow>
              k = agentName \<and>
              agentName \<in> set (completedAgents (updateSessionProgress stored s agentName commitHash)))"
proof (cases stored)
  case False
  then show ?thesis using assms by (simp add: updateSessionProgress_def)
next
  case True
  have inv: "session_inv (updateSessionProgress True s agentName commitHash)"
    using assms
    by (auto simp: updateSessionProgress_stored session_inv_def unique_set split: if_splits)
  have mem: "agentName \<in> set (completedAgents (updateSessionProgress True s agentName commitHash))"
    by (simp add: updateSessionProgress_stored unique_set)
  have out: "agentName \<notin> set (failedAgents (updateSessionProgress True s agentName commitHash))"
    by (simp add: updateSessionProgress_stored)
  have gain: "k = agentName"
    if "k \<in> dom (checkpoints (updateSessionProgress True s agentName commitHash))"
      and "k \<notin> dom (checkpoints s)" for k
    using that by (auto simp: updateSessionProgress_stored split: if_splits)
  have yes: "stored = True" using True by simp
  show ?thesis
    unfolding yes using inv mem out gain by blast
qed

theorem updateSessionProgress_keeps_invariant_witness:
  "session_inv fresh_session \<and>
   session_inv (updateSessionProgress True fresh_session ''recon'' (Some ''abc1234'')) \<and>
   ''recon'' \<in> set (completedAgents (updateSessionProgress True fresh_session ''recon'' (Some ''abc1234''))) \<and>
   ''recon'' \<notin> set (failedAgents (updateSessionProgress True fresh_session ''recon'' (Some ''abc1234''))) \<and>
   checkpoints (updateSessionProgress True fresh_session ''recon'' (Some ''abc1234'')) ''recon'' =
     Some ''abc1234''"
proof -
  have inv: "session_inv fresh_session"
    by (simp add: session_inv_def fresh_session_def)
  have cp: "checkpoints (updateSessionProgress True fresh_session ''recon'' (Some ''abc1234'')) ''recon'' =
              Some ''abc1234''"
    by (simp add: updateSessionProgress_def truthy_def)
  show ?thesis
    using updateSessionProgress_keeps_invariant
            [OF inv, where stored = True and agentName = "''recon''" and commitHash = "Some ''abc1234''"]
          inv cp
    by simp
qed

text \<open>
  Counterexample to C7 as stated: the session store throws, the helper logs and
  returns, and the agent is still in \<open>failedAgents\<close> and not in \<open>completedAgents\<close>.
\<close>

theorem updateSessionProgress_counterexample:
  "updateSessionProgress False fresh_session ''recon'' (Some ''abc1234'') = fresh_session \<and>
   ''recon'' \<notin> set (completedAgents (updateSessionProgress False fresh_session ''recon'' (Some ''abc1234''))) \<and>
   ''recon'' \<in> set (failedAgents (updateSessionProgress False fresh_session ''recon'' (Some ''abc1234'')))"
  by (simp add: updateSessionProgress_def fresh_session_def)

section \<open>Interrupts\<close>

text \<open>
  C9, on the code. The handler prints that it is cleaning up and exits with code 0;
  the file the running attempt wrote since the last checkpoint stays in the workspace.
\<close>

theorem sigint_exits_without_rollback:
  "attempt_in_flight interrupted_process \<and>
   on_SIGINT interrupted_process =
     \<lparr>console = [''Received SIGINT, cleaning up...''], exit_code = Some 0,
      workspace_now = [''deliverables/partial.md''], last_checkpoint = [],
      attempt_in_flight = True\<rparr> \<and>
   workspace_now (on_SIGINT interrupted_process) \<noteq> last_checkpoint (on_SIGINT interrupted_process)"
  by (simp add: on_SIGINT_def interrupted_process_def)

end
